theory Spec2Isabelle
  imports Main "HOL-Library.Word" "HOL-Library.Sublist"
begin

section \<open>Network replicator (Source/Engine/Networking/NetworkReplicator.cpp)\<close>

subsection \<open>Identifiers, types and scripting objects\<close>

text \<open>
  A \<open>Guid\<close> is a 128-bit identifier (\<open>Guid::Empty\<close> is zero); client ids and frame
  counters are \<open>uint32\<close>. A \<open>ScriptingObject*\<close> is an address; \<open>nullptr\<close> is \<open>None\<close>.
\<close>

type_synonym Guid = "128 word"
type_synonym uint32 = "32 word"
type_synonym uint16 = "16 word"
type_synonym byte = "8 word"
type_synonym obj_ref = nat
type_synonym NetworkConnection = nat
type_synonym NetworkStream = "byte list"

definition Guid_Empty :: Guid where
  "Guid_Empty = 0"

definition MAX_uint16 :: nat where
  "MAX_uint16 = 65535"

text \<open>
  A scripting type as the replicator sees it: its full name, the vtable offset of its
  \<open>INetworkSerializable\<close> implementation (\<open>type.GetInterface(...)\<close>, \<open>None\<close> when the type
  does not implement the interface) and its base type (\<open>GetBaseType()\<close>, a null handle at
  the root). A \<open>ScriptingTypeHandle\<close> is a type or the null handle.
\<close>

datatype ScriptingType =
  ScriptingType (Fullname: string) (GetInterface: "16 word option") (GetBaseType: "ScriptingType option")

type_synonym ScriptingTypeHandle = "ScriptingType option"

record ScriptingObject =
  GetID :: Guid
  GetTypeHandle :: ScriptingType
  IsSceneObject :: bool
  IsScript :: bool
  GetParent :: "obj_ref option"
  ToNetworkObject :: bool
  HasPrefabLink :: bool
  GetPrefabID :: Guid
  GetPrefabObjectID :: Guid

datatype NetworkConnectionState = Offline | Connecting | Connected | Disconnecting | Disconnected

record NetworkClient =
  ClientId :: uint32
  Connection :: NetworkConnection
  ClientState :: NetworkConnectionState

datatype NetworkObjectRole = NoRole | Replicated | OwnedAuthoritative

subsection \<open>Serializers\<close>

text \<open>
  A \<open>SerializeFunc\<close> is a function pointer; the three functions of this file are named,
  any other registered function is \<open>UserFunc n\<close>. A tag is a pointer-sized integer.
\<close>

datatype SerializeFunc =
  INetworkSerializable_Serialize
  | INetworkSerializable_Deserialize
  | INetworkSerializable_Managed
  | UserFunc nat

record Serializer =
  Methods :: "SerializeFunc \<times> SerializeFunc"
  Tags :: "int \<times> int"

subsection \<open>The engine around the replicator\<close>

text \<open>
  What the replicator reads from its collaborators: \<open>NetworkManager\<close> (state, mode, ids,
  clients, frame), the object system (live objects by address: a deleted object has no
  entry, so a \<open>ScriptingObjectReference\<close> to it reads as null), the type lookup
  \<open>Scripting::FindScriptingType\<close>, and the bytes a serializer function writes for an
  instance when it is called with a tag.
\<close>

record Engine =
  State :: NetworkConnectionState
  IsClient :: bool
  LocalClientId :: uint32
  ServerClientId :: uint32
  Clients :: "NetworkClient list"
  Frame :: uint32
  heap :: "obj_ref \<Rightarrow> ScriptingObject option"
  FindScriptingType :: "string \<Rightarrow> ScriptingTypeHandle"
  Written :: "SerializeFunc \<Rightarrow> obj_ref \<Rightarrow> int \<Rightarrow> byte list"

subsection \<open>Replicator data\<close>

record NetworkReplicatedObject =
  Object :: obj_ref
  ObjectId :: Guid
  ParentId :: Guid
  OwnerClientId :: uint32
  LastOwnerFrame :: uint32
  Role :: NetworkObjectRole
  Spawned :: bool
  InvalidTypeWarn :: bool
  TargetClientIds :: "uint32 list"
  AsNetworkObject :: bool

record SpawnItem =
  SpawnObject_ref :: obj_ref
  Targets :: "uint32 list"
  HasOwnership :: bool
  HierarchicalOwnership :: bool
  SpawnOwnerClientId :: uint32
  SpawnRole :: NetworkObjectRole

record NetworkMessageObjectReplicate =
  OwnerFrame :: uint32
  ReplicateObjectId :: Guid
  ReplicateParentId :: Guid
  ReplicateTypeName :: string
  DataSize :: uint16

record NetworkMessageObjectSpawn =
  SpawnObjectId :: Guid
  SpawnParentId :: Guid
  PrefabId :: Guid
  PrefabObjectID :: Guid
  SpawnMsgOwnerClientId :: uint32
  SpawnTypeName :: string

record NetworkMessageObjectDespawn =
  DespawnObjectId :: Guid

record NetworkMessageObjectRole =
  RoleObjectId :: Guid
  RoleOwnerClientId :: uint32

datatype NetworkMessage =
  MsgReplicate NetworkMessageObjectReplicate "byte list"
  | MsgSpawn NetworkMessageObjectSpawn
  | MsgDespawn NetworkMessageObjectDespawn
  | MsgRole NetworkMessageObjectRole

datatype NetworkChannelType = ReliableOrdered | Unreliable

text \<open>
  Calls into collaborators, in the order they happen. \<open>EndSendMessage\<close> with no target list
  (a client sending to the server) has targets \<open>None\<close>. \<open>Invoke f obj tag stream\<close> is a call
  of a serializer function with the stream as it is at the call.
\<close>

datatype Effect =
  EndSendMessage NetworkChannelType NetworkMessage "NetworkConnection list option"
  | Invoke SerializeFunc obj_ref int NetworkStream
  | OnNetworkSerialize obj_ref
  | OnNetworkDeserialize obj_ref
  | OnNetworkSpawn obj_ref
  | OnNetworkDespawn obj_ref
  | DeleteObject obj_ref

datatype Fault =
  StackExhausted
  | NullDereference
  | EndIteratorDereference
  | AssertFailed
  | MissingCode

text \<open>
  The globals of the anonymous namespace, \<open>Scripting::ObjectsLookupIdMapping\<close> (set to the
  remapping table or null), and the calls made so far. \<open>Objects\<close> is the hash set in its
  iteration order, \<open>IdsRemappingTable\<close> the dictionary in its iteration order.
\<close>

record Replicator =
  Objects :: "NetworkReplicatedObject list"
  SpawnQueue :: "SpawnItem list"
  DespawnQueue :: "Guid list"
  IdsRemappingTable :: "(Guid \<times> Guid) list"
  CachedWriteStream :: bool
  CachedReadStream :: bool
  NewClients :: "NetworkClient list"
  CachedTargets :: "NetworkConnection list"
  SerializersTable :: "ScriptingType \<Rightarrow> Serializer option"
  ObjectsLookupIdMapping :: bool
  effects :: "Effect list"

subsection \<open>Collections\<close>

text \<open>
  Modelled from the spec: the engine's \<open>HashSet\<close> and \<open>Dictionary\<close> are not part of the
  sources. \<open>Find\<close> by id gives the position of the record with that id; \<open>TryGet\<close>
  overwrites its output only on a hit; \<open>KeyOf\<close> gives the first key holding a value.
  \<open>Add\<close> inserts a new key; an entry of the remapping table, once inserted, is never
  rewritten: \<open>Add\<close> on a key that is already there stops at the dictionary's assertion.
\<close>

primrec Find :: "NetworkReplicatedObject list \<Rightarrow> Guid \<Rightarrow> nat option" where
  "Find [] g = None"
| "Find (x # xs) g = (if ObjectId x = g then Some 0 else map_option Suc (Find xs g))"

definition TryGet :: "(Guid \<times> Guid) list \<Rightarrow> Guid \<Rightarrow> Guid \<Rightarrow> Guid" where
  "TryGet d k out = (case map_of d k of Some v \<Rightarrow> v | None \<Rightarrow> out)"

primrec KeyOf :: "(Guid \<times> Guid) list \<Rightarrow> Guid \<Rightarrow> Guid \<Rightarrow> Guid" where
  "KeyOf [] v out = out"
| "KeyOf (e # d) v out = (if snd e = v then fst e else KeyOf d v out)"

definition Add :: "Guid \<Rightarrow> Guid \<Rightarrow> (Guid \<times> Guid) list \<Rightarrow> Fault + (Guid \<times> Guid) list" where
  "Add k v d = (case map_of d k of Some _ \<Rightarrow> Inl AssertFailed | None \<Rightarrow> Inr (d @ [(k, v)]))"

text \<open>
  \<open>item.Object.Get()\<close> as a pointer: the address, or null once the object is gone. Where
  the source goes on to read the object, the model reads \<open>heap env\<close> at the address.
\<close>

definition Get :: "Engine \<Rightarrow> obj_ref \<Rightarrow> obj_ref option" where
  "Get env r = (case heap env r of None \<Rightarrow> None | Some _ \<Rightarrow> Some r)"

subsection \<open>ResolveObject\<close>

text \<open>A \<open>NetworkReplicatedObject*\<close> into \<open>Objects\<close> is the position of the record.\<close>

definition ResolveObject :: "Replicator \<Rightarrow> Guid \<Rightarrow> nat option" where
  "ResolveObject s objectId =
     (case Find (Objects s) objectId of
        Some it \<Rightarrow> Some it
      | None \<Rightarrow> Find (Objects s) (TryGet (IdsRemappingTable s) objectId objectId))"

text \<open>The loop \<open>for (auto& e : Objects)\<close> of the three-argument overload, from position \<open>i\<close>.\<close>

primrec ResolveObject_scan ::
  "Engine \<Rightarrow> Guid \<Rightarrow> ScriptingType \<Rightarrow> NetworkReplicatedObject list \<Rightarrow> nat \<Rightarrow> nat option" where
  "ResolveObject_scan env parentId objectType [] i = None"
| "ResolveObject_scan env parentId objectType (item # rest) i =
     (if LastOwnerFrame item = 0 \<and> ParentId item = parentId \<and>
         (case heap env (Object item) of
            None \<Rightarrow> False
          | Some obj \<Rightarrow> GetTypeHandle obj = objectType)
      then Some i
      else ResolveObject_scan env parentId objectType rest (Suc i))"

definition ResolveObject_parent ::
  "Engine \<Rightarrow> Replicator \<Rightarrow> Guid \<Rightarrow> Guid \<Rightarrow> string \<Rightarrow> Fault + (nat option \<times> Replicator)" where
  "ResolveObject_parent env s objectId parentId objectTypeName =
     (case ResolveObject s objectId of
        Some obj \<Rightarrow> Inr (Some obj, s)
      | None \<Rightarrow>
          (let parentId' = TryGet (IdsRemappingTable s) parentId parentId in
           case FindScriptingType env objectTypeName of
             None \<Rightarrow> Inr (None, s)
           | Some objectType \<Rightarrow>
               (case ResolveObject_scan env parentId' objectType (Objects s) 0 of
                  Some i \<Rightarrow>
                    (case Add objectId (ObjectId (Objects s ! i)) (IdsRemappingTable s) of
                       Inl f \<Rightarrow> Inl f
                     | Inr table \<Rightarrow> Inr (Some i, s\<lparr>IdsRemappingTable := table\<rparr>))
                | None \<Rightarrow> Inr (None, s))))"

subsection \<open>Serializer registry\<close>

definition AddSerializer ::
  "ScriptingTypeHandle \<Rightarrow> SerializeFunc \<Rightarrow> SerializeFunc \<Rightarrow> int \<Rightarrow> int \<Rightarrow> Replicator \<Rightarrow> Replicator" where
  "AddSerializer typeHandle serialize deserialize serializeTag deserializeTag s =
     (case typeHandle of
        None \<Rightarrow> s
      | Some t \<Rightarrow>
          s\<lparr>SerializersTable := (SerializersTable s)
              (t \<mapsto> \<lparr>Methods = (serialize, deserialize), Tags = (serializeTag, deserializeTag)\<rparr>)\<rparr>)"

text \<open>
  \<open>serializer.Methods[idx](instance, stream, serializer.Tags[idx])\<close>: the call is recorded;
  a serializing call leaves in the stream what the function writes.
\<close>

definition CallSerializer ::
  "Engine \<Rightarrow> Serializer \<Rightarrow> obj_ref \<Rightarrow> NetworkStream \<Rightarrow> bool \<Rightarrow> Replicator \<Rightarrow> NetworkStream \<times> Replicator" where
  "CallSerializer env serializer instance stream serialize s =
     (let m = (if serialize then fst (Methods serializer) else snd (Methods serializer));
          tag = (if serialize then fst (Tags serializer) else snd (Tags serializer));
          s' = s\<lparr>effects := effects s @ [Invoke m instance tag stream]\<rparr>
      in (if serialize then stream @ Written env m instance tag else stream, s'))"

text \<open>
  \<open>NetworkReplicator::InvokeSerializer\<close>; the result is \<open>(failed, stream, state)\<close>. The
  recursion follows the base types.
\<close>

fun InvokeSerializer ::
  "Engine \<Rightarrow> ScriptingTypeHandle \<Rightarrow> obj_ref option \<Rightarrow> NetworkStream option \<Rightarrow> bool \<Rightarrow> Replicator
     \<Rightarrow> bool \<times> NetworkStream option \<times> Replicator" where
  "InvokeSerializer env None instance stream serialize s = (True, stream, s)"
| "InvokeSerializer env (Some (ScriptingType name interface baseTypeHandle)) instance stream serialize s =
     (case (instance, stream) of
        (Some inst, Some str) \<Rightarrow>
          (case SerializersTable s (ScriptingType name interface baseTypeHandle) of
             Some serializer \<Rightarrow>
               (let (str', s') = CallSerializer env serializer inst str serialize s
                in (False, Some str', s'))
           | None \<Rightarrow>
               (case interface of
                  Some VTableOffset \<Rightarrow>
                    (let serializer = \<lparr>Methods = (INetworkSerializable_Serialize, INetworkSerializable_Deserialize),
                                       Tags = (sint VTableOffset, sint VTableOffset)\<rparr>;
                         s1 = s\<lparr>SerializersTable := (SerializersTable s)
                                 (ScriptingType name interface baseTypeHandle \<mapsto> serializer)\<rparr>;
                         (str', s') = CallSerializer env serializer inst str serialize s1
                     in (False, Some str', s'))
                | None \<Rightarrow>
                    (case baseTypeHandle of
                       Some base \<Rightarrow> InvokeSerializer env (Some base) instance stream serialize s
                     | None \<Rightarrow> (True, stream, s))))
      | _ \<Rightarrow> (True, stream, s))"

subsection \<open>Target lists and outbound messages\<close>

definition BuildCachedTargets :: "NetworkClient list \<Rightarrow> Replicator \<Rightarrow> Replicator" where
  "BuildCachedTargets clients s =
     s\<lparr>CachedTargets := map Connection (filter (\<lambda>client. ClientState client = Connected) clients)\<rparr>"

text \<open>A \<open>NetworkClient*\<close> is compared through the client it points to.\<close>

definition BuildCachedTargets_excluded ::
  "NetworkClient list \<Rightarrow> NetworkClient option \<Rightarrow> Replicator \<Rightarrow> Replicator" where
  "BuildCachedTargets_excluded clients excludedClient s =
     s\<lparr>CachedTargets := map Connection
         (filter (\<lambda>client. ClientState client = Connected \<and> Some client \<noteq> excludedClient) clients)\<rparr>"

text \<open>
  Modelled from the spec: \<open>DataContainer::IsValid\<close> is not part of the sources; an empty
  target list means broadcast.
\<close>

definition IsValid :: "uint32 list \<Rightarrow> bool" where
  "IsValid clientIds = (clientIds \<noteq> [])"

definition BuildCachedTargets_ids ::
  "NetworkClient list \<Rightarrow> uint32 list \<Rightarrow> uint32 \<Rightarrow> Replicator \<Rightarrow> Replicator" where
  "BuildCachedTargets_ids clients clientIds excludedClientId s =
     (if IsValid clientIds
      then s\<lparr>CachedTargets := map Connection
             (filter (\<lambda>client. ClientState client = Connected \<and> ClientId client \<noteq> excludedClientId \<and>
                               List.member clientIds (ClientId client)) clients)\<rparr>
      else s\<lparr>CachedTargets := map Connection
             (filter (\<lambda>client. ClientState client = Connected \<and> ClientId client \<noteq> excludedClientId)
                clients)\<rparr>)"

definition BuildCachedTargets_item :: "Engine \<Rightarrow> NetworkReplicatedObject \<Rightarrow> Replicator \<Rightarrow> Replicator" where
  "BuildCachedTargets_item env item s =
     BuildCachedTargets_ids (Clients env) (TargetClientIds item) (OwnerClientId item) s"

text \<open>In the helpers below \<open>obj\<close> is the object a non-null \<open>ScriptingObject*\<close> points to.\<close>

definition SendObjectSpawnMessage ::
  "Engine \<Rightarrow> NetworkReplicatedObject \<Rightarrow> ScriptingObject \<Rightarrow> Replicator \<Rightarrow> Replicator" where
  "SendObjectSpawnMessage env item obj s =
     (let isClient = IsClient env;
          objectId = (if isClient then KeyOf (IdsRemappingTable s) (ObjectId item) (ObjectId item)
                      else ObjectId item);
          parentId = (if isClient then KeyOf (IdsRemappingTable s) (ParentId item) (ParentId item)
                      else ParentId item);
          linked = (IsSceneObject obj \<and> HasPrefabLink obj);
          msgData = \<lparr>SpawnObjectId = objectId, SpawnParentId = parentId,
                     PrefabId = (if linked then GetPrefabID obj else Guid_Empty),
                     PrefabObjectID = (if linked then GetPrefabObjectID obj else Guid_Empty),
                     SpawnMsgOwnerClientId = OwnerClientId item,
                     SpawnTypeName = Fullname (GetTypeHandle obj)\<rparr>
      in s\<lparr>effects := effects s @
            [EndSendMessage ReliableOrdered (MsgSpawn msgData)
               (if isClient then None else Some (CachedTargets s))]\<rparr>)"

definition SendObjectRoleMessage ::
  "Engine \<Rightarrow> NetworkReplicatedObject \<Rightarrow> NetworkClient option \<Rightarrow> Replicator \<Rightarrow> Replicator" where
  "SendObjectRoleMessage env item excludedClient s =
     (let msgData = \<lparr>RoleObjectId = ObjectId item, RoleOwnerClientId = OwnerClientId item\<rparr>
      in if IsClient env
         then s\<lparr>effects := effects s @ [EndSendMessage ReliableOrdered (MsgRole msgData) None]\<rparr>
         else (let s1 = BuildCachedTargets_excluded (Clients env) excludedClient s
               in s1\<lparr>effects := effects s1 @
                     [EndSendMessage ReliableOrdered (MsgRole msgData) (Some (CachedTargets s1))]\<rparr>))"

text \<open>\<open>DeleteObject\<close> hands the object to the engine's removal service; the request is recorded.\<close>

definition DeleteNetworkObject :: "obj_ref \<Rightarrow> ScriptingObject \<Rightarrow> Replicator \<Rightarrow> Replicator" where
  "DeleteNetworkObject r obj s =
     (case (if IsScript obj then GetParent obj else None) of
        Some parent \<Rightarrow> s\<lparr>effects := effects s @ [DeleteObject parent]\<rparr>
      | None \<Rightarrow> s\<lparr>effects := effects s @ [DeleteObject r]\<rparr>)"

text \<open>
  \<open>IsParentOf\<close> walks the scene parents; the first argument bounds the depth of the
  recursion, and running out of it is \<open>StackExhausted\<close>.
\<close>

fun IsParentOf :: "nat \<Rightarrow> Engine \<Rightarrow> obj_ref option \<Rightarrow> obj_ref option \<Rightarrow> Fault + bool" where
  "IsParentOf 0 env obj parent = Inl StackExhausted"
| "IsParentOf (Suc n) env obj parent =
     (case obj of
        None \<Rightarrow> Inr False
      | Some r \<Rightarrow>
          (case heap env r of
             None \<Rightarrow> Inl NullDereference
           | Some sceneObject \<Rightarrow>
               if IsSceneObject sceneObject
               then (if GetParent sceneObject = parent then Inr True
                     else IsParentOf n env (GetParent sceneObject) parent)
               else Inr False))"

subsection \<open>Registering, removing and spawning objects\<close>

definition Contains :: "Engine \<Rightarrow> NetworkReplicatedObject list \<Rightarrow> obj_ref \<Rightarrow> bool" where
  "Contains env xs obj = list_ex (\<lambda>item. Get env (Object item) = Some obj) xs"

definition AddObject :: "Engine \<Rightarrow> obj_ref option \<Rightarrow> obj_ref option \<Rightarrow> Replicator \<Rightarrow> Fault + Replicator" where
  "AddObject env obj parent s =
     (case obj of
        None \<Rightarrow> Inr s
      | Some r \<Rightarrow>
          if State env = Offline then Inr s
          else if Contains env (Objects s) r then Inr s
          else (case heap env r of
                  None \<Rightarrow> Inl NullDereference
                | Some sceneObject \<Rightarrow>
                    (let parent' = (case parent of
                                      Some p \<Rightarrow> Some p
                                    | None \<Rightarrow> if IsSceneObject sceneObject then GetParent sceneObject else None);
                         item = \<lparr>Object = r, ObjectId = GetID sceneObject, ParentId = Guid_Empty,
                                  OwnerClientId = ServerClientId env, LastOwnerFrame = 0,
                                  Role = (if IsClient env then Replicated else OwnedAuthoritative),
                                  Spawned = False, InvalidTypeWarn = False, TargetClientIds = [],
                                  AsNetworkObject = ToNetworkObject sceneObject\<rparr>
                     in case parent' of
                          None \<Rightarrow> Inr (s\<lparr>Objects := Objects s @ [item]\<rparr>)
                        | Some p \<Rightarrow>
                            (case heap env p of
                               None \<Rightarrow> Inl NullDereference
                             | Some parentObj \<Rightarrow>
                                 Inr (s\<lparr>Objects := Objects s @ [item\<lparr>ParentId := GetID parentObj\<rparr>]\<rparr>)))))"

text \<open>
  \<open>RemoveObject\<close> returns when the record is found. Past the guard \<open>it\<close> is \<open>Objects.End()\<close>,
  and the log line reads \<open>it->Item.ParentId\<close>.
\<close>

definition RemoveObject :: "Engine \<Rightarrow> obj_ref option \<Rightarrow> Replicator \<Rightarrow> Fault + Replicator" where
  "RemoveObject env obj s =
     (case obj of
        None \<Rightarrow> Inr s
      | Some r \<Rightarrow>
          if State env = Offline then Inr s
          else (case heap env r of
                  None \<Rightarrow> Inl NullDereference
                | Some x \<Rightarrow>
                    (case Find (Objects s) (GetID x) of
                       Some it \<Rightarrow> Inr s
                     | None \<Rightarrow> Inl EndIteratorDereference)))"




subsection \<open>Ownership\<close>

text \<open>The special case of \<open>SetObjectOwnership\<close> for an object that is only queued for spawning.\<close>

primrec SetObjectOwnership_queued ::
  "Engine \<Rightarrow> obj_ref \<Rightarrow> uint32 \<Rightarrow> NetworkObjectRole \<Rightarrow> bool \<Rightarrow> SpawnItem list \<Rightarrow> SpawnItem list" where
  "SetObjectOwnership_queued env obj ownerClientId localRole hierarchical [] = []"
| "SetObjectOwnership_queued env obj ownerClientId localRole hierarchical (item # rest) =
     (if Get env (SpawnObject_ref item) = Some obj
      then item\<lparr>HasOwnership := True, HierarchicalOwnership := hierarchical,
                SpawnOwnerClientId := ownerClientId, SpawnRole := localRole\<rparr> # rest
      else item # SetObjectOwnership_queued env obj ownerClientId localRole hierarchical rest)"

text \<open>
  The part of \<open>SetObjectOwnership\<close> between the lookup and the walk down the hierarchy, on
  the record at position \<open>it\<close>. A failed \<open>CHECK\<close> returns from the function: \<open>None\<close>.
\<close>

definition SetObjectOwnership_item ::
  "Engine \<Rightarrow> nat \<Rightarrow> uint32 \<Rightarrow> NetworkObjectRole \<Rightarrow> Replicator \<Rightarrow> Replicator option" where
  "SetObjectOwnership_item env it ownerClientId localRole s =
     (let item = Objects s ! it in
      if OwnerClientId item = LocalClientId env
      then (if OwnerClientId item \<noteq> ownerClientId
            then (if localRole = OwnedAuthoritative then None
                  else (let item' = item\<lparr>OwnerClientId := ownerClientId, LastOwnerFrame := 1,
                                          Role := localRole\<rparr>
                        in Some (SendObjectRoleMessage env item' None
                                   (s\<lparr>Objects := (Objects s)[it := item']\<rparr>))))
            else (if localRole \<noteq> OwnedAuthoritative then None else Some s))
      else (if localRole = OwnedAuthoritative then None
            else Some (s\<lparr>Objects := (Objects s)[it := item\<lparr>Role := localRole\<rparr>]\<rparr>)))"

text \<open>
  \<open>SetObjectOwnership\<close> and its loop over \<open>Objects\<close> (by position). The first argument
  bounds the depth of the recursion.
\<close>

fun SetObjectOwnership ::
  "nat \<Rightarrow> Engine \<Rightarrow> obj_ref option \<Rightarrow> uint32 \<Rightarrow> NetworkObjectRole \<Rightarrow> bool \<Rightarrow> Replicator
     \<Rightarrow> Fault + Replicator"
and SetObjectOwnership_children ::
  "nat \<Rightarrow> Engine \<Rightarrow> Guid \<Rightarrow> nat list \<Rightarrow> uint32 \<Rightarrow> NetworkObjectRole \<Rightarrow> bool \<Rightarrow> Replicator
     \<Rightarrow> Fault + Replicator" where
  "SetObjectOwnership 0 env obj ownerClientId localRole hierarchical s = Inl StackExhausted"
| "SetObjectOwnership (Suc n) env obj ownerClientId localRole hierarchical s =
     (case obj of
        None \<Rightarrow> Inr s
      | Some r \<Rightarrow>
          (case heap env r of
             None \<Rightarrow> Inl NullDereference
           | Some x \<Rightarrow>
               (case Find (Objects s) (GetID x) of
                  None \<Rightarrow>
                    Inr (s\<lparr>SpawnQueue :=
                           SetObjectOwnership_queued env r ownerClientId localRole hierarchical (SpawnQueue s)\<rparr>)
                | Some it \<Rightarrow>
                    if Get env (Object (Objects s ! it)) \<noteq> Some r then Inr s
                    else (case SetObjectOwnership_item env it ownerClientId localRole s of
                            None \<Rightarrow> Inr s
                          | Some s1 \<Rightarrow>
                              if hierarchical
                              then SetObjectOwnership_children n env (ObjectId (Objects s1 ! it))
                                     [0..<length (Objects s1)] ownerClientId localRole hierarchical s1
                              else Inr s1))))"
| "SetObjectOwnership_children n env parentId [] ownerClientId localRole hierarchical s = Inr s"
| "SetObjectOwnership_children n env parentId (i # rest) ownerClientId localRole hierarchical s =
     (if ParentId (Objects s ! i) = parentId
      then (case SetObjectOwnership n env (Get env (Object (Objects s ! i))) ownerClientId localRole
                   hierarchical s of
              Inl f \<Rightarrow> Inl f
            | Inr s1 \<Rightarrow>
                SetObjectOwnership_children n env parentId rest ownerClientId localRole hierarchical s1)
      else SetObjectOwnership_children n env parentId rest ownerClientId localRole hierarchical s)"

subsection \<open>Clients joining and leaving\<close>

definition NetworkReplicatorClientConnected :: "NetworkClient \<Rightarrow> Replicator \<Rightarrow> Replicator" where
  "NetworkReplicatorClientConnected client s = s\<lparr>NewClients := NewClients s @ [client]\<rparr>"



subsection \<open>The replication loop\<close>

definition NetworkReplicatorPreUpdate :: "Replicator \<Rightarrow> Replicator" where
  "NetworkReplicatorPreUpdate s = s\<lparr>ObjectsLookupIdMapping := True\<rparr>"

text \<open>Late-joining clients: the loop over \<open>Objects\<close>.\<close>

primrec Update_NewClients :: "Engine \<Rightarrow> NetworkReplicatedObject list \<Rightarrow> Replicator \<Rightarrow> Replicator" where
  "Update_NewClients env [] s = s"
| "Update_NewClients env (item # rest) s =
     (case heap env (Object item) of
        None \<Rightarrow> Update_NewClients env rest s
      | Some obj \<Rightarrow>
          if \<not> Spawned item then Update_NewClients env rest s
          else Update_NewClients env rest
                 (SendObjectSpawnMessage env item obj
                    (BuildCachedTargets_ids (NewClients s) (TargetClientIds item) (ServerClientId env) s)))"

text \<open>The despawn queue: one message for each queued id, then the queue is cleared.\<close>

primrec Update_DespawnLoop :: "Engine \<Rightarrow> Guid list \<Rightarrow> Replicator \<Rightarrow> Replicator" where
  "Update_DespawnLoop env [] s = s"
| "Update_DespawnLoop env (e # rest) s =
     (let msgData = \<lparr>DespawnObjectId = (if IsClient env then KeyOf (IdsRemappingTable s) e e else e)\<rparr>
      in Update_DespawnLoop env rest
           (s\<lparr>effects := effects s @
               [EndSendMessage ReliableOrdered (MsgDespawn msgData)
                  (if IsClient env then None else Some (CachedTargets s))]\<rparr>))"

definition Update_Despawn :: "Engine \<Rightarrow> Replicator \<Rightarrow> Replicator" where
  "Update_Despawn env s =
     (if DespawnQueue s \<noteq> []
      then (Update_DespawnLoop env (DespawnQueue s) s)\<lparr>DespawnQueue := []\<rparr>
      else s)"

text \<open>
  Hierarchical ownership inside the spawn queue: the inner loop over \<open>q\<close> for one \<open>e\<close>, and
  the outer loop over \<open>e\<close>, both by position in the queue.
\<close>

primrec Update_SpawnInherit ::
  "nat \<Rightarrow> Engine \<Rightarrow> SpawnItem \<Rightarrow> nat list \<Rightarrow> SpawnItem list \<Rightarrow> Fault + SpawnItem list" where
  "Update_SpawnInherit depth env e [] queue = Inr queue"
| "Update_SpawnInherit depth env e (qi # rest) queue =
     (let q = queue ! qi in
      if \<not> HasOwnership q
      then (case IsParentOf depth env (Get env (SpawnObject_ref q)) (Get env (SpawnObject_ref e)) of
              Inl f \<Rightarrow> Inl f
            | Inr isParent \<Rightarrow>
                Update_SpawnInherit depth env e rest
                  (if isParent
                   then queue[qi := q\<lparr>HasOwnership := True, SpawnRole := SpawnRole e,
                                      SpawnOwnerClientId := SpawnOwnerClientId e\<rparr>]
                   else queue))
      else Update_SpawnInherit depth env e rest queue)"

primrec Update_SpawnPropagate ::
  "nat \<Rightarrow> Engine \<Rightarrow> nat list \<Rightarrow> SpawnItem list \<Rightarrow> Fault + SpawnItem list" where
  "Update_SpawnPropagate depth env [] queue = Inr queue"
| "Update_SpawnPropagate depth env (ei # rest) queue =
     (let e = queue ! ei in
      if HasOwnership e \<and> HierarchicalOwnership e
      then (case Update_SpawnInherit depth env e [0..<length queue] queue of
              Inl f \<Rightarrow> Inl f
            | Inr queue' \<Rightarrow> Update_SpawnPropagate depth env rest queue')
      else Update_SpawnPropagate depth env rest queue)"

text \<open>
  The body of the second loop over the spawn queue, for the item \<open>e\<close>. \<open>obj->GetID()\<close> on a
  queued object that is gone is a null dereference; \<open>MISSING_CODE\<close> is fatal. The moved-from
  \<open>e.Targets\<close> is not read again: the queue is cleared after the loop.
\<close>

definition Update_SpawnItem :: "nat \<Rightarrow> Engine \<Rightarrow> SpawnItem \<Rightarrow> Replicator \<Rightarrow> Fault + Replicator" where
  "Update_SpawnItem depth env e s =
     (case heap env (SpawnObject_ref e) of
        None \<Rightarrow> Inl NullDereference
      | Some obj \<Rightarrow>
          (case (case Find (Objects s) (GetID obj) of
                   Some it \<Rightarrow> Inr s
                 | None \<Rightarrow> AddObject env (Some (SpawnObject_ref e)) None s) of
             Inl f \<Rightarrow> Inl f
           | Inr s1 \<Rightarrow>
               (case Find (Objects s1) (GetID obj) of
                  None \<Rightarrow> Inr s1
                | Some it \<Rightarrow>
                    if OwnerClientId (Objects s1 ! it) \<noteq> LocalClientId env \<or>
                       Role (Objects s1 ! it) \<noteq> OwnedAuthoritative
                    then Inr s1
                    else (case (if HasOwnership e
                                then (let s2 = s1\<lparr>Objects := (Objects s1)
                                                 [it := (Objects s1 ! it)\<lparr>Role := SpawnRole e,
                                                          OwnerClientId := SpawnOwnerClientId e\<rparr>]\<rparr>
                                      in if HierarchicalOwnership e
                                         then SetObjectOwnership depth env (Some (SpawnObject_ref e))
                                                (SpawnOwnerClientId e) (SpawnRole e) True s2
                                         else Inr s2)
                                else Inr s1) of
                            Inl f \<Rightarrow> Inl f
                          | Inr s3 \<Rightarrow>
                              (case (if IsValid (Targets e)
                                     then (if IsClient env then Inl MissingCode
                                           else Inr (s3\<lparr>Objects := (Objects s3)
                                                        [it := (Objects s3 ! it)\<lparr>TargetClientIds := Targets e\<rparr>]\<rparr>))
                                     else Inr s3) of
                                 Inl f \<Rightarrow> Inl f
                               | Inr s4 \<Rightarrow>
                                   (let s5 = BuildCachedTargets_ids (Clients env)
                                               (TargetClientIds (Objects s4 ! it)) (ServerClientId env) s4;
                                        s6 = SendObjectSpawnMessage env (Objects s5 ! it) obj s5
                                    in Inr (s6\<lparr>Objects := (Objects s6)
                                               [it := (Objects s6 ! it)\<lparr>Spawned := True\<rparr>]\<rparr>)))))))"

primrec Update_SpawnLoop :: "nat \<Rightarrow> Engine \<Rightarrow> nat list \<Rightarrow> Replicator \<Rightarrow> Fault + Replicator" where
  "Update_SpawnLoop depth env [] s = Inr s"
| "Update_SpawnLoop depth env (ei # rest) s =
     (case Update_SpawnItem depth env (SpawnQueue s ! ei) s of
        Inl f \<Rightarrow> Inl f
      | Inr s1 \<Rightarrow> Update_SpawnLoop depth env rest s1)"

definition Update_Spawn :: "nat \<Rightarrow> Engine \<Rightarrow> Replicator \<Rightarrow> Fault + Replicator" where
  "Update_Spawn depth env s =
     (if SpawnQueue s \<noteq> []
      then (case Update_SpawnPropagate depth env [0..<length (SpawnQueue s)] (SpawnQueue s) of
              Inl f \<Rightarrow> Inl f
            | Inr queue \<Rightarrow>
                (case Update_SpawnLoop depth env [0..<length queue] (s\<lparr>SpawnQueue := queue\<rparr>) of
                   Inl f \<Rightarrow> Inl f
                 | Inr s1 \<Rightarrow> Inr (s1\<lparr>SpawnQueue := []\<rparr>)))
      else Inr s)"

text \<open>
  The body of the last loop of \<open>NetworkReplicatorUpdate\<close> for one record: the record as it
  stays in \<open>Objects\<close> (\<open>None\<close> when it is removed) and the state. The second line of the
  body is the source's test for skipping a record.
\<close>

definition Update_ReplicateItem ::
  "Engine \<Rightarrow> NetworkReplicatedObject \<Rightarrow> Replicator
     \<Rightarrow> Fault + (NetworkReplicatedObject option \<times> Replicator)" where
  "Update_ReplicateItem env item s =
     (case heap env (Object item) of
        None \<Rightarrow> Inr (None, s)
      | Some obj \<Rightarrow>
          if Role item \<noteq> OwnedAuthoritative \<and>
             (\<not> IsClient env \<and> OwnerClientId item \<noteq> LocalClientId env)
          then Inr (Some item, s)
          else (let s1 = (if AsNetworkObject item
                          then s\<lparr>effects := effects s @ [OnNetworkSerialize (Object item)]\<rparr>
                          else s)
                in case InvokeSerializer env (Some (GetTypeHandle obj)) (Some (Object item)) (Some []) True s1 of
                     (failed, stream, s2) \<Rightarrow>
                       if failed then Inr (Some (item\<lparr>InvalidTypeWarn := True\<rparr>), s2)
                       else (case stream of
                               None \<Rightarrow> Inl NullDereference
                             | Some buffer \<Rightarrow>
                                 if \<not> length buffer \<le> MAX_uint16 then Inl AssertFailed
                                 else (let isClient = IsClient env;
                                           msgData = \<lparr>OwnerFrame = Frame env,
                                             ReplicateObjectId =
                                               (if isClient
                                                then KeyOf (IdsRemappingTable s2) (ObjectId item) (ObjectId item)
                                                else ObjectId item),
                                             ReplicateParentId =
                                               (if isClient
                                                then KeyOf (IdsRemappingTable s2) (ParentId item) (ParentId item)
                                                else ParentId item),
                                             ReplicateTypeName = Fullname (GetTypeHandle obj),
                                             DataSize = of_nat (length buffer)\<rparr>
                                       in if isClient
                                          then Inr (Some item,
                                                 s2\<lparr>effects := effects s2 @
                                                     [EndSendMessage Unreliable (MsgReplicate msgData buffer) None]\<rparr>)
                                          else (let s3 = BuildCachedTargets_item env item s2
                                                in Inr (Some item,
                                                     s3\<lparr>effects := effects s3 @
                                                         [EndSendMessage Unreliable (MsgReplicate msgData buffer)
                                                            (Some (CachedTargets s3))]\<rparr>))))))"

primrec Update_ReplicateLoop ::
  "Engine \<Rightarrow> NetworkReplicatedObject list \<Rightarrow> Replicator
     \<Rightarrow> Fault + (NetworkReplicatedObject list \<times> Replicator)" where
  "Update_ReplicateLoop env [] s = Inr ([], s)"
| "Update_ReplicateLoop env (item # rest) s =
     (case Update_ReplicateItem env item s of
        Inl f \<Rightarrow> Inl f
      | Inr (kept, s1) \<Rightarrow>
          (case Update_ReplicateLoop env rest s1 of
             Inl f \<Rightarrow> Inl f
           | Inr (keptRest, s2) \<Rightarrow>
               Inr ((case kept of None \<Rightarrow> keptRest | Some item' \<Rightarrow> item' # keptRest), s2)))"

text \<open>\<open>NetworkReplicatorUpdate\<close>; \<open>depth\<close> bounds the recursion of the calls it makes.\<close>

definition NetworkReplicatorUpdate :: "nat \<Rightarrow> Engine \<Rightarrow> Replicator \<Rightarrow> Fault + Replicator" where
  "NetworkReplicatorUpdate depth env s =
     (if length (Objects s) = 0 then Inr s
      else (let s1 = s\<lparr>CachedWriteStream := True\<rparr>;
                isClient = IsClient env;
                s2 = (if \<not> isClient \<and> length (NewClients s1) \<noteq> 0
                      then (Update_NewClients env (Objects s1) s1)\<lparr>NewClients := []\<rparr>
                      else s1);
                s3 = BuildCachedTargets (Clients env) s2
            in if \<not> isClient \<and> length (CachedTargets s3) = 0
               then Inr (s3\<lparr>ObjectsLookupIdMapping := False\<rparr>)
               else (case Update_Spawn depth env (Update_Despawn env s3) of
                       Inl f \<Rightarrow> Inl f
                     | Inr s5 \<Rightarrow>
                         (case Update_ReplicateLoop env (Objects s5) s5 of
                            Inl f \<Rightarrow> Inl f
                          | Inr (kept, s6) \<Rightarrow>
                              Inr (s6\<lparr>Objects := kept, ObjectsLookupIdMapping := False\<rparr>)))))"

subsection \<open>Message handlers\<close>

text \<open>
  \<open>payload\<close> is the message buffer from the read position on; the read stream is its
  first \<open>DataSize\<close> bytes. \<open>client\<close> is the sending client, null on a client peer.
  The handler stops where \<open>ResolveObject\<close> stops.
\<close>

definition OnNetworkMessageObjectReplicate ::
  "Engine \<Rightarrow> NetworkMessageObjectReplicate \<Rightarrow> byte list \<Rightarrow> NetworkClient option \<Rightarrow> Replicator
     \<Rightarrow> Fault + Replicator" where
  "OnNetworkMessageObjectReplicate env msgData payload client s =
     (case ResolveObject_parent env s (ReplicateObjectId msgData) (ReplicateParentId msgData)
             (ReplicateTypeName msgData) of
        Inl f \<Rightarrow> Inl f
      | Inr (None, s1) \<Rightarrow> Inr s1
      | Inr (Some e, s1) \<Rightarrow>
          (let item = Objects s1 ! e in
           case heap env (Object item) of
             None \<Rightarrow> Inr s1
           | Some obj \<Rightarrow>
               if (case client of Some c \<Rightarrow> OwnerClientId item \<noteq> ClientId c | None \<Rightarrow> False)
               then Inr s1
               else if Role item = OwnedAuthoritative then Inr s1
               else if LastOwnerFrame item \<ge> OwnerFrame msgData then Inr s1
               else (let s2 = s1\<lparr>Objects := (Objects s1)[e := item\<lparr>LastOwnerFrame := OwnerFrame msgData\<rparr>],
                                 CachedReadStream := True\<rparr>;
                         stream = take (unat (DataSize msgData)) payload
                     in case InvokeSerializer env (Some (GetTypeHandle obj)) (Some (Object item))
                               (Some stream) False s2 of
                          (failed, stream', s3) \<Rightarrow>
                            (let s4 = (if failed
                                       then s3\<lparr>Objects := (Objects s3)
                                               [e := (Objects s3 ! e)\<lparr>InvalidTypeWarn := True\<rparr>]\<rparr>
                                       else s3)
                             in if AsNetworkObject item
                                then Inr (s4\<lparr>effects := effects s4 @ [OnNetworkDeserialize (Object item)]\<rparr>)
                                else Inr s4))))"

definition OnNetworkMessageObjectRole ::
  "Engine \<Rightarrow> NetworkMessageObjectRole \<Rightarrow> NetworkClient option \<Rightarrow> Replicator \<Rightarrow> Replicator" where
  "OnNetworkMessageObjectRole env msgData client s =
     (case ResolveObject s (RoleObjectId msgData) of
        None \<Rightarrow> s
      | Some e \<Rightarrow>
          (let item = Objects s ! e in
           case heap env (Object item) of
             None \<Rightarrow> s
           | Some obj \<Rightarrow>
               if (case client of Some c \<Rightarrow> OwnerClientId item \<noteq> ClientId c | None \<Rightarrow> False) then s
               else (let item1 = item\<lparr>OwnerClientId := RoleOwnerClientId msgData, LastOwnerFrame := 1\<rparr>;
                         item2 = (if OwnerClientId item1 = LocalClientId env
                                  then item1\<lparr>Role := OwnedAuthoritative, LastOwnerFrame := 0\<rparr>
                                  else if Role item1 = OwnedAuthoritative
                                  then item1\<lparr>Role := Replicated\<rparr>
                                  else item1);
                         s1 = s\<lparr>Objects := (Objects s)[e := item2]\<rparr>
                     in if \<not> IsClient env then SendObjectRoleMessage env item2 client s1 else s1)))"

section \<open>Notions of the specification\<close>













text \<open>
  A state \<open>s'\<close> later in a run than \<open>s\<close>, with the despawn queue untouched in between: the
  calls made up to \<open>s\<close> are the beginning of the calls made up to \<open>s'\<close>.
\<close>

definition grows :: "Replicator \<Rightarrow> Replicator \<Rightarrow> bool" where
  "grows s s' = (DespawnQueue s' = DespawnQueue s \<and> prefix (effects s) (effects s'))"

text \<open>
  The serializer that the resolution order of the registry finds for a type: the entry
  of the type, else the entry forwarding to its \<open>INetworkSerializable\<close> implementation,
  else what its base type resolves to. \<open>serializer_calls\<close> is the call made through it
  (none when nothing resolves).
\<close>

fun ResolveSerializer :: "(ScriptingType \<Rightarrow> Serializer option) \<Rightarrow> ScriptingType \<Rightarrow> Serializer option" where
  "ResolveSerializer table (ScriptingType name interface base) =
     (case table (ScriptingType name interface base) of
        Some serializer \<Rightarrow> Some serializer
      | None \<Rightarrow>
          (case interface of
             Some off \<Rightarrow>
               Some \<lparr>Methods = (INetworkSerializable_Serialize, INetworkSerializable_Deserialize),
                     Tags = (sint off, sint off)\<rparr>
           | None \<Rightarrow> (case base of Some b \<Rightarrow> ResolveSerializer table b | None \<Rightarrow> None)))"

definition serializer_calls ::
  "(ScriptingType \<Rightarrow> Serializer option) \<Rightarrow> ScriptingType \<Rightarrow> obj_ref \<Rightarrow> NetworkStream \<Rightarrow> bool \<Rightarrow> Effect list" where
  "serializer_calls table t inst stream serialize =
     (case ResolveSerializer table t of
        None \<Rightarrow> []
      | Some serializer \<Rightarrow>
          [Invoke (if serialize then fst (Methods serializer) else snd (Methods serializer)) inst
             (if serialize then fst (Tags serializer) else snd (Tags serializer)) stream])"

text \<open>
  Inbound messages. The sender is not the owner when there is a sending client and its
  id differs from the recorded owner. A replicate message is dropped when its object
  cannot be resolved (no record is found, with parent and type reconciliation, or the
  record's reference to the object is dead), when the sender is not the owner, when the
  local role is \<open>OwnedAuthoritative\<close>, or when its frame is not newer than the last one.
\<close>

definition sender_is_not_owner :: "NetworkClient option \<Rightarrow> NetworkReplicatedObject \<Rightarrow> bool" where
  "sender_is_not_owner client item =
     (case client of Some c \<Rightarrow> OwnerClientId item \<noteq> ClientId c | None \<Rightarrow> False)"

definition Replicate_dropped ::
  "Engine \<Rightarrow> Replicator \<Rightarrow> NetworkMessageObjectReplicate \<Rightarrow> NetworkClient option \<Rightarrow> bool" where
  "Replicate_dropped env s m client =
     (case ResolveObject_parent env s (ReplicateObjectId m) (ReplicateParentId m)
             (ReplicateTypeName m) of
        Inl f \<Rightarrow> False
      | Inr (None, s1) \<Rightarrow> True
      | Inr (Some e, s1) \<Rightarrow>
          heap env (Object (Objects s ! e)) = None \<or>
          sender_is_not_owner client (Objects s ! e) \<or>
          Role (Objects s ! e) = OwnedAuthoritative \<or>
          OwnerFrame m \<le> LastOwnerFrame (Objects s ! e))"

section \<open>Example peers\<close>

text \<open>
  A small world for concrete runs: a type hierarchy in which only \<open>Game.Player\<close> implements
  \<open>INetworkSerializable\<close>, two live objects (a player at address 1, a crate at address 2),
  a server with two connected clients, and the peer of client 7.
\<close>

definition Object_type :: ScriptingType where
  "Object_type = ScriptingType ''FlaxEngine.Object'' None None"

definition Actor_type :: ScriptingType where
  "Actor_type = ScriptingType ''FlaxEngine.Actor'' None (Some Object_type)"

definition Player_type :: ScriptingType where
  "Player_type = ScriptingType ''Game.Player'' (Some 16) (Some Actor_type)"

definition Crate_type :: ScriptingType where
  "Crate_type = ScriptingType ''Game.Crate'' None (Some Actor_type)"

definition player :: ScriptingObject where
  "player = \<lparr>GetID = 17, GetTypeHandle = Player_type, IsSceneObject = True, IsScript = False,
     GetParent = None, ToNetworkObject = True, HasPrefabLink = False, GetPrefabID = 0,
     GetPrefabObjectID = 0\<rparr>"

definition crate :: ScriptingObject where
  "crate = \<lparr>GetID = 18, GetTypeHandle = Crate_type, IsSceneObject = True, IsScript = False,
     GetParent = None, ToNetworkObject = True, HasPrefabLink = False, GetPrefabID = 0,
     GetPrefabObjectID = 0\<rparr>"

definition example_heap :: "obj_ref \<Rightarrow> ScriptingObject option" where
  "example_heap r = (if r = 1 then Some player else if r = 2 then Some crate else None)"

definition example_types :: "string \<Rightarrow> ScriptingTypeHandle" where
  "example_types n = (if n = ''Game.Player'' then Some Player_type
                      else if n = ''Game.Crate'' then Some Crate_type else None)"

definition client7 :: NetworkClient where
  "client7 = \<lparr>ClientId = 7, Connection = 107, ClientState = Connected\<rparr>"

definition client8 :: NetworkClient where
  "client8 = \<lparr>ClientId = 8, Connection = 108, ClientState = Connected\<rparr>"

definition example_written :: "SerializeFunc \<Rightarrow> obj_ref \<Rightarrow> int \<Rightarrow> byte list" where
  "example_written f r tag = [42]"

definition server_env :: Engine where
  "server_env = \<lparr>State = Connected, IsClient = False, LocalClientId = 0, ServerClientId = 0,
     Clients = [client7, client8], Frame = 16, heap = example_heap,
     FindScriptingType = example_types, Written = example_written\<rparr>"

text \<open>The server once client 7 has left.\<close>

definition server_env8 :: Engine where
  "server_env8 = \<lparr>State = Connected, IsClient = False, LocalClientId = 0, ServerClientId = 0,
     Clients = [client8], Frame = 16, heap = example_heap,
     FindScriptingType = example_types, Written = example_written\<rparr>"

definition client_env :: Engine where
  "client_env = \<lparr>State = Connected, IsClient = True, LocalClientId = 7, ServerClientId = 0,
     Clients = [], Frame = 16, heap = example_heap,
     FindScriptingType = example_types, Written = example_written\<rparr>"

definition example_record ::
  "obj_ref \<Rightarrow> Guid \<Rightarrow> uint32 \<Rightarrow> NetworkObjectRole \<Rightarrow> bool \<Rightarrow> NetworkReplicatedObject" where
  "example_record r g owner role spawned =
     \<lparr>Object = r, ObjectId = g, ParentId = 0, OwnerClientId = owner, LastOwnerFrame = 0,
      Role = role, Spawned = spawned, InvalidTypeWarn = False, TargetClientIds = [],
      AsNetworkObject = True\<rparr>"

definition example_replicator :: "NetworkReplicatedObject list \<Rightarrow> Replicator" where
  "example_replicator objects =
     \<lparr>Objects = objects, SpawnQueue = [], DespawnQueue = [], IdsRemappingTable = [],
      CachedWriteStream = False, CachedReadStream = False, NewClients = [], CachedTargets = [],
      SerializersTable = (\<lambda>t. None), ObjectsLookupIdMapping = False, effects = []\<rparr>"

definition example_replicate :: "uint32 \<Rightarrow> Guid \<Rightarrow> string \<Rightarrow> NetworkMessageObjectReplicate" where
  "example_replicate frame g name =
     \<lparr>OwnerFrame = frame, ReplicateObjectId = g, ReplicateParentId = 0, ReplicateTypeName = name,
      DataSize = 2\<rparr>"

definition example_serializer :: Serializer where
  "example_serializer = \<lparr>Methods = (UserFunc 1, UserFunc 2), Tags = (0, 0)\<rparr>"

lemmas example_defs =
  Object_type_def Actor_type_def Player_type_def Crate_type_def player_def crate_def
  example_heap_def example_types_def client7_def client8_def example_written_def
  server_env_def server_env8_def client_env_def example_record_def example_replicator_def
  example_serializer_def

lemmas Update_defs =
  NetworkReplicatorUpdate_def Update_Despawn_def Update_Spawn_def Update_SpawnItem_def
  Update_ReplicateItem_def BuildCachedTargets_def BuildCachedTargets_ids_def
  BuildCachedTargets_item_def BuildCachedTargets_excluded_def SendObjectSpawnMessage_def
  SendObjectRoleMessage_def CallSerializer_def IsValid_def MAX_uint16_def Guid_Empty_def
  DeleteNetworkObject_def

section \<open>Lookup\<close>

lemma Find_Some: "Find xs g = Some i \<Longrightarrow> i < length xs \<and> ObjectId (xs ! i) = g"
proof (induction xs arbitrary: i)
  case Nil
  then show ?case by simp
next
  case (Cons x xs)
  show ?case
  proof (cases "ObjectId x = g")
    case True
    with Cons.prems show ?thesis by simp
  next
    case False
    with Cons.prems obtain k where k: "Find xs g = Some k" "i = Suc k" by auto
    from Cons.IH[OF k(1)] k(2) show ?thesis by simp
  qed
qed

lemma Find_None: "Find xs g = None \<longleftrightarrow> (\<forall>x\<in>set xs. ObjectId x \<noteq> g)"
  by (induction xs) auto


lemma Add_present: "map_of d k = Some w \<Longrightarrow> Add k v d = Inl AssertFailed"
  by (simp add: Add_def)










section \<open>Serializer resolution\<close>

lemma InvokeSerializer_result:
  "\<exists>table' stream'.
     InvokeSerializer env (Some t) (Some inst) (Some str) serialize s =
       (ResolveSerializer (SerializersTable s) t = None, Some stream',
        s\<lparr>SerializersTable := table',
          effects := effects s @ serializer_calls (SerializersTable s) t inst str serialize\<rparr>)"
proof (induction t)
  case (ScriptingType name interface base)
  let ?t = "ScriptingType name interface base"
  show ?case
  proof (cases "SerializersTable s ?t")
    case (Some serializer)
    then have "InvokeSerializer env (Some ?t) (Some inst) (Some str) serialize s =
        (ResolveSerializer (SerializersTable s) ?t = None,
         Some (fst (CallSerializer env serializer inst str serialize s)),
         s\<lparr>SerializersTable := SerializersTable s,
           effects := effects s @ serializer_calls (SerializersTable s) ?t inst str serialize\<rparr>)"
      by (simp add: serializer_calls_def CallSerializer_def Let_def)
    then show ?thesis by blast
  next
    case None
    note tab = None
    show ?thesis
    proof (cases interface)
      case (Some off)
      let ?ser = "\<lparr>Methods = (INetworkSerializable_Serialize, INetworkSerializable_Deserialize),
                    Tags = (sint off, sint off)\<rparr>"
      let ?s1 = "s\<lparr>SerializersTable := (SerializersTable s)(?t \<mapsto> ?ser)\<rparr>"
      from tab Some have "InvokeSerializer env (Some ?t) (Some inst) (Some str) serialize s =
          (ResolveSerializer (SerializersTable s) ?t = None,
           Some (fst (CallSerializer env ?ser inst str serialize ?s1)),
           s\<lparr>SerializersTable := (SerializersTable s)(?t \<mapsto> ?ser),
             effects := effects s @ serializer_calls (SerializersTable s) ?t inst str serialize\<rparr>)"
        by (simp add: serializer_calls_def CallSerializer_def Let_def)
      then show ?thesis by blast
    next
      case None
      note iface = None
      show ?thesis
      proof (cases base)
        case None
        with tab iface have "InvokeSerializer env (Some ?t) (Some inst) (Some str) serialize s =
            (ResolveSerializer (SerializersTable s) ?t = None, Some str,
             s\<lparr>SerializersTable := SerializersTable s,
               effects := effects s @ serializer_calls (SerializersTable s) ?t inst str serialize\<rparr>)"
          by (simp add: serializer_calls_def)
        then show ?thesis by blast
      next
        case (Some b)
        have b: "b \<in> set_option base" using Some by simp
        from ScriptingType.IH[OF b]
        obtain table' stream' where r:
          "InvokeSerializer env (Some b) (Some inst) (Some str) serialize s =
             (ResolveSerializer (SerializersTable s) b = None, Some stream',
              s\<lparr>SerializersTable := table',
                effects := effects s @ serializer_calls (SerializersTable s) b inst str serialize\<rparr>)"
          by blast
        from tab iface Some have
          "InvokeSerializer env (Some ?t) (Some inst) (Some str) serialize s =
             InvokeSerializer env (Some b) (Some inst) (Some str) serialize s"
          and "ResolveSerializer (SerializersTable s) ?t = ResolveSerializer (SerializersTable s) b"
          by simp_all
        with r have "InvokeSerializer env (Some ?t) (Some inst) (Some str) serialize s =
             (ResolveSerializer (SerializersTable s) ?t = None, Some stream',
              s\<lparr>SerializersTable := table',
                effects := effects s @ serializer_calls (SerializersTable s) ?t inst str serialize\<rparr>)"
          by (simp add: serializer_calls_def)
        then show ?thesis by blast
      qed
    qed
  qed
qed

lemma InvokeSerializer_missing:
  "ResolveSerializer (SerializersTable s) t = None \<Longrightarrow>
   InvokeSerializer env (Some t) (Some inst) (Some str) serialize s = (True, Some str, s)"
proof (induction t)
  case (ScriptingType name interface base)
  show ?case
  proof (cases base)
    case None
    with ScriptingType.prems show ?thesis
      by (simp split: option.splits)
  next
    case (Some b)
    have b: "b \<in> set_option base" using Some by simp
    from ScriptingType.prems Some have rb: "ResolveSerializer (SerializersTable s) b = None"
      by (simp split: option.splits)
    from ScriptingType.IH[OF b rb] ScriptingType.prems Some show ?thesis
      by (simp split: option.splits)
  qed
qed

text \<open>
  C8. Resolution order of \<open>InvokeSerializer\<close> for a non-null instance and stream: (1) an
  entry of the table for the type handle is used; (2) otherwise, when the type implements
  \<open>INetworkSerializable\<close>, an entry forwarding to the interface methods with the vtable
  offset as tag is added to the table and used; (3) otherwise the call is the call for
  the base type; (4) with no base type it reports failure and leaves everything as it is.
\<close>

theorem InvokeSerializer_order:
  "(SerializersTable s t = Some ser \<longrightarrow>
      InvokeSerializer env (Some t) (Some inst) (Some str) dir s =
        (False, Some (fst (CallSerializer env ser inst str dir s)),
         snd (CallSerializer env ser inst str dir s))) \<and>
   (SerializersTable s t = None \<and> GetInterface t = Some off \<longrightarrow>
      (let ser = \<lparr>Methods = (INetworkSerializable_Serialize, INetworkSerializable_Deserialize),
                  Tags = (sint off, sint off)\<rparr>;
           s1 = s\<lparr>SerializersTable := (SerializersTable s)(t \<mapsto> ser)\<rparr>
       in InvokeSerializer env (Some t) (Some inst) (Some str) dir s =
            (False, Some (fst (CallSerializer env ser inst str dir s1)),
             snd (CallSerializer env ser inst str dir s1)))) \<and>
   (SerializersTable s t = None \<and> GetInterface t = None \<and> GetBaseType t = Some b \<longrightarrow>
      InvokeSerializer env (Some t) (Some inst) (Some str) dir s =
        InvokeSerializer env (Some b) (Some inst) (Some str) dir s) \<and>
   (SerializersTable s t = None \<and> GetInterface t = None \<and> GetBaseType t = None \<longrightarrow>
      InvokeSerializer env (Some t) (Some inst) (Some str) dir s = (True, Some str, s))"
  by (cases t) (auto simp: Let_def split: prod.splits)

theorem InvokeSerializer_order_witness:
  "SerializersTable (AddSerializer (Some Actor_type) (UserFunc 1) (UserFunc 2) 0 0 (example_replicator []))
     Actor_type = Some example_serializer \<and>
   InvokeSerializer server_env (Some Actor_type) (Some 2) (Some []) True
     (AddSerializer (Some Actor_type) (UserFunc 1) (UserFunc 2) 0 0 (example_replicator [])) =
     (False, Some [42],
      (AddSerializer (Some Actor_type) (UserFunc 1) (UserFunc 2) 0 0 (example_replicator []))
        \<lparr>effects := [Invoke (UserFunc 1) 2 0 []]\<rparr>) \<and>
   SerializersTable (example_replicator []) Player_type = None \<and>
   GetInterface Player_type = Some 16 \<and>
   InvokeSerializer server_env (Some Player_type) (Some 1) (Some []) True (example_replicator []) =
     (False, Some [42],
      (example_replicator [])
        \<lparr>SerializersTable := (SerializersTable (example_replicator []))
           (Player_type \<mapsto> \<lparr>Methods = (INetworkSerializable_Serialize, INetworkSerializable_Deserialize),
                             Tags = (16, 16)\<rparr>),
         effects := [Invoke INetworkSerializable_Serialize 1 16 []]\<rparr>) \<and>
   GetInterface Crate_type = None \<and> GetBaseType Crate_type = Some Actor_type \<and>
   InvokeSerializer server_env (Some Crate_type) (Some 2) (Some []) True
     (AddSerializer (Some Actor_type) (UserFunc 1) (UserFunc 2) 0 0 (example_replicator [])) =
   InvokeSerializer server_env (Some Actor_type) (Some 2) (Some []) True
     (AddSerializer (Some Actor_type) (UserFunc 1) (UserFunc 2) 0 0 (example_replicator [])) \<and>
   GetInterface Object_type = None \<and> GetBaseType Object_type = None \<and>
   InvokeSerializer server_env (Some Object_type) (Some 2) (Some []) True (example_replicator []) =
     (True, Some [], example_replicator [])"
proof -
  let ?s0 = "example_replicator []"
  let ?s1 = "AddSerializer (Some Actor_type) (UserFunc 1) (UserFunc 2) 0 0 (example_replicator [])"
  have t1: "SerializersTable ?s1 Actor_type = Some example_serializer"
    by (simp add: AddSerializer_def example_defs)
  have t2: "SerializersTable ?s0 Player_type = None" "GetInterface Player_type = Some 16"
    by (simp_all add: example_defs)
  have t3: "SerializersTable ?s1 Crate_type = None" "GetInterface Crate_type = None"
    "GetBaseType Crate_type = Some Actor_type"
    by (simp_all add: AddSerializer_def example_defs)
  have t4: "SerializersTable ?s0 Object_type = None" "GetInterface Object_type = None"
    "GetBaseType Object_type = None"
    by (simp_all add: example_defs)
  have c1: "InvokeSerializer server_env (Some Actor_type) (Some 2) (Some []) True ?s1 =
      (False, Some [42], ?s1\<lparr>effects := [Invoke (UserFunc 1) 2 0 []]\<rparr>)"
    using InvokeSerializer_order [where s = ?s1 and t = Actor_type and ser = example_serializer
        and env = server_env and inst = 2 and str = "[]" and dir = True] t1
    by (simp add: CallSerializer_def AddSerializer_def example_defs)
  have c2: "InvokeSerializer server_env (Some Player_type) (Some 1) (Some []) True ?s0 =
      (False, Some [42],
       ?s0\<lparr>SerializersTable := (SerializersTable ?s0)
             (Player_type \<mapsto> \<lparr>Methods = (INetworkSerializable_Serialize, INetworkSerializable_Deserialize),
                               Tags = (16, 16)\<rparr>),
           effects := [Invoke INetworkSerializable_Serialize 1 16 []]\<rparr>)"
    using InvokeSerializer_order [where s = ?s0 and t = Player_type and off = 16
        and env = server_env and inst = 1 and str = "[]" and dir = True] t2
    by (simp add: CallSerializer_def Let_def example_defs)
  have c3: "InvokeSerializer server_env (Some Crate_type) (Some 2) (Some []) True ?s1 =
      InvokeSerializer server_env (Some Actor_type) (Some 2) (Some []) True ?s1"
    using InvokeSerializer_order [where s = ?s1 and t = Crate_type and b = Actor_type
        and env = server_env and inst = 2 and str = "[]" and dir = True] t3
    by blast
  have c4: "InvokeSerializer server_env (Some Object_type) (Some 2) (Some []) True ?s0 =
      (True, Some [], ?s0)"
    using InvokeSerializer_order [where s = ?s0 and t = Object_type
        and env = server_env and inst = 2 and str = "[]" and dir = True] t4
    by blast
  show ?thesis
    using t1 t2 t3 t4 c1 c2 c3 c4 by blast
qed

section \<open>Removing an object\<close>

text \<open>
  C4. \<open>RemoveObject\<close> on an object whose id is in the registry: the guard
  \<open>if (it != Objects.End()) return;\<close> returns before \<open>Objects.Remove(it)\<close>, so the record
  stays. Here the player's record is at position 0 before and after the call.
\<close>

theorem RemoveObject_keeps_present_record:
  "Find (Objects (example_replicator [example_record 1 17 0 OwnedAuthoritative False])) (GetID player) =
     Some 0 \<and>
   RemoveObject server_env (Some 1) (example_replicator [example_record 1 17 0 OwnedAuthoritative False]) =
     Inr (example_replicator [example_record 1 17 0 OwnedAuthoritative False])"
  by (simp add: RemoveObject_def example_defs)

lemma RemoveObject_present:
  assumes "State env \<noteq> Offline" and "heap env r = Some x" and "Find (Objects s) (GetID x) = Some it"
  shows "RemoveObject env (Some r) s = Inr s"
  using assms by (simp add: RemoveObject_def)

lemma RemoveObject_absent:
  assumes "State env \<noteq> Offline" and "heap env r = Some x" and "Find (Objects s) (GetID x) = None"
  shows "RemoveObject env (Some r) s = Inl EndIteratorDereference"
  using assms by (simp add: RemoveObject_def)

section \<open>A client leaving\<close>











lemma grows_fields:
  "DespawnQueue s' = DespawnQueue s \<Longrightarrow> effects s' = effects s @ post \<Longrightarrow> grows s s'"
  by (simp add: grows_def)

lemma grows_same:
  "DespawnQueue s' = DespawnQueue s \<Longrightarrow> effects s' = effects s \<Longrightarrow> grows s s'"
  by (simp add: grows_def)




















section \<open>The replication loop\<close>

text \<open>
  C9. With an empty registry \<open>NetworkReplicatorUpdate\<close> returns at its first line: after
  \<open>NetworkReplicatorPreUpdate\<close> has published the remapping table, the update leaves the
  state as it is, with the table still published.
\<close>

theorem Update_empty_registry_keeps_mapping:
  "NetworkReplicatorUpdate depth env ((NetworkReplicatorPreUpdate s)\<lparr>Objects := []\<rparr>) =
     Inr ((NetworkReplicatorPreUpdate s)\<lparr>Objects := []\<rparr>) \<and>
   ObjectsLookupIdMapping ((NetworkReplicatorPreUpdate s)\<lparr>Objects := []\<rparr>)"
  by (simp add: NetworkReplicatorUpdate_def NetworkReplicatorPreUpdate_def)

text \<open>Every other return of the update clears the published table.\<close>

lemma Update_clears_mapping:
  assumes "Objects s \<noteq> []" and "NetworkReplicatorUpdate depth env s = Inr s'"
  shows "\<not> ObjectsLookupIdMapping s'"
  using assms
  by (auto simp: NetworkReplicatorUpdate_def Let_def split: if_splits sum.splits prod.splits)

text \<open>
  C1. The test of the last loop skips a record only on the server, and there it skips
  the records of other clients' objects. On the peer of client 7 a record with role
  \<open>Replicated\<close>, owned by the server, is serialized and sent; on the server a record with
  role \<open>Replicated\<close>, owned by client 7, is not sent.
\<close>

theorem Update_replicate_filter_inputs:
  "map_sum id effects
     (NetworkReplicatorUpdate 1 client_env (example_replicator [example_record 1 17 0 Replicated True])) =
     Inr [OnNetworkSerialize 1, Invoke INetworkSerializable_Serialize 1 16 [],
          EndSendMessage Unreliable
            (MsgReplicate \<lparr>OwnerFrame = 16, ReplicateObjectId = 17, ReplicateParentId = 0,
                            ReplicateTypeName = ''Game.Player'', DataSize = 1\<rparr> [42]) None] \<and>
   map_sum id effects
     (NetworkReplicatorUpdate 1 server_env (example_replicator [example_record 1 17 7 Replicated True])) =
     Inr []"
  by (simp add: Update_defs Let_def example_defs)

text \<open>The skip test in general: a live record is passed over exactly in this case.\<close>

lemma Update_ReplicateItem_skipped:
  assumes "heap env (Object item) = Some obj"
    and "Role item \<noteq> OwnedAuthoritative" and "\<not> IsClient env" and "OwnerClientId item \<noteq> LocalClientId env"
  shows "Update_ReplicateItem env item s = Inr (Some item, s)"
  using assms by (simp add: Update_ReplicateItem_def)

section \<open>Spawning twice\<close>














section \<open>Inbound messages\<close>

lemma scan_bound:
  "ResolveObject_scan env p t xs i = Some k \<Longrightarrow> i \<le> k \<and> k < i + length xs"
proof (induction xs arbitrary: i)
  case Nil
  then show ?case by simp
next
  case (Cons x xs)
  show ?case
  proof (cases "ResolveObject_scan env p t (x # xs) i = Some i")
    case True
    with Cons.prems show ?thesis by simp
  next
    case False
    with Cons.prems have "ResolveObject_scan env p t xs (Suc i) = Some k"
      by (simp split: if_splits)
    from Cons.IH[OF this] show ?thesis by simp
  qed
qed

lemma ResolveObject_parent_state:
  assumes "ResolveObject_parent env s objectId parentId typeName = Inr (r, s1)"
  shows "s1 = s\<lparr>IdsRemappingTable := IdsRemappingTable s1\<rparr>"
  using assms
  by (auto simp: ResolveObject_parent_def Let_def split: option.splits sum.splits)

lemma ResolveObject_bound:
  "ResolveObject s objectId = Some e \<Longrightarrow> e < length (Objects s)"
  by (auto simp: ResolveObject_def split: option.splits dest: Find_Some)

lemma ResolveObject_parent_bound:
  assumes "ResolveObject_parent env s objectId parentId typeName = Inr (Some e, s1)"
  shows "e < length (Objects s)"
  using assms
  by (auto simp: ResolveObject_parent_def Let_def split: option.splits sum.splits
      dest: ResolveObject_bound scan_bound)

lemma Replicate_dropped_result:
  assumes p: "ResolveObject_parent env s (ReplicateObjectId m) (ReplicateParentId m)
                (ReplicateTypeName m) = Inr (r, s1)"
    and d: "Replicate_dropped env s m client"
  shows "OnNetworkMessageObjectReplicate env m payload client s = Inr s1"
proof -
  define X where "X = IdsRemappingTable s1"
  have s1: "s1 = s\<lparr>IdsRemappingTable := X\<rparr>"
    unfolding X_def by (rule ResolveObject_parent_state[OF p])
  have p': "ResolveObject_parent env s (ReplicateObjectId m) (ReplicateParentId m)
                (ReplicateTypeName m) = Inr (r, s\<lparr>IdsRemappingTable := X\<rparr>)"
    using p s1 by simp
  show ?thesis
  proof (cases r)
    case None
    with p' show ?thesis
      unfolding s1 by (simp add: OnNetworkMessageObjectReplicate_def)
  next
    case (Some e)
    with p' d have
      "heap env (Object (Objects s ! e)) = None \<or> sender_is_not_owner client (Objects s ! e) \<or>
       Role (Objects s ! e) = OwnedAuthoritative \<or> OwnerFrame m \<le> LastOwnerFrame (Objects s ! e)"
      by (simp add: Replicate_dropped_def)
    with p' Some show ?thesis
      unfolding s1
      by (auto simp: OnNetworkMessageObjectReplicate_def sender_is_not_owner_def Let_def
          split: option.splits)
  qed
qed

lemma Replicate_accepted:
  assumes r: "ResolveObject_parent env s (ReplicateObjectId m) (ReplicateParentId m)
                (ReplicateTypeName m) = Inr (Some e, s1)"
    and h: "heap env (Object (Objects s ! e)) = Some obj"
    and c1: "\<not> sender_is_not_owner client (Objects s ! e)"
    and c2: "Role (Objects s ! e) \<noteq> OwnedAuthoritative"
    and c3: "\<not> OwnerFrame m \<le> LastOwnerFrame (Objects s ! e)"
  shows "\<exists>table.
     OnNetworkMessageObjectReplicate env m payload client s =
       Inr (s1\<lparr>Objects := (Objects s)
            [e := (Objects s ! e)
               \<lparr>LastOwnerFrame := OwnerFrame m,
                InvalidTypeWarn := (ResolveSerializer (SerializersTable s) (GetTypeHandle obj) = None \<or>
                                    InvalidTypeWarn (Objects s ! e))\<rparr>],
          CachedReadStream := True,
          SerializersTable := table,
          effects := effects s @
            serializer_calls (SerializersTable s) (GetTypeHandle obj) (Object (Objects s ! e))
              (take (unat (DataSize m)) payload) False @
            (if AsNetworkObject (Objects s ! e) then [OnNetworkDeserialize (Object (Objects s ! e))]
             else [])\<rparr>)"
proof -
  let ?item = "Objects s ! e"
  let ?stream = "take (unat (DataSize m)) payload"
  define X where "X = IdsRemappingTable s1"
  have s1: "s1 = s\<lparr>IdsRemappingTable := X\<rparr>"
    unfolding X_def by (rule ResolveObject_parent_state[OF r])
  let ?s2 = "s\<lparr>IdsRemappingTable := X,
               Objects := (Objects s)[e := ?item\<lparr>LastOwnerFrame := OwnerFrame m\<rparr>],
               CachedReadStream := True\<rparr>"
  have r': "ResolveObject_parent env s (ReplicateObjectId m) (ReplicateParentId m)
                (ReplicateTypeName m) = Inr (Some e, s\<lparr>IdsRemappingTable := X\<rparr>)"
    using r s1 by simp
  have lt: "e < length (Objects s)"
    by (rule ResolveObject_parent_bound[OF r])
  obtain table' stream' where inv:
    "InvokeSerializer env (Some (GetTypeHandle obj)) (Some (Object ?item)) (Some ?stream) False ?s2 =
       (ResolveSerializer (SerializersTable ?s2) (GetTypeHandle obj) = None, Some stream',
        ?s2\<lparr>SerializersTable := table',
            effects := effects ?s2 @
              serializer_calls (SerializersTable ?s2) (GetTypeHandle obj) (Object ?item) ?stream False\<rparr>)"
    using InvokeSerializer_result[of env "GetTypeHandle obj" "Object ?item" ?stream False ?s2]
    by blast
  have "OnNetworkMessageObjectReplicate env m payload client s =
       Inr (s\<lparr>IdsRemappingTable := X,
          Objects := (Objects s)
            [e := ?item
               \<lparr>LastOwnerFrame := OwnerFrame m,
                InvalidTypeWarn := (ResolveSerializer (SerializersTable s) (GetTypeHandle obj) = None \<or>
                                    InvalidTypeWarn ?item)\<rparr>],
          CachedReadStream := True,
          SerializersTable := table',
          effects := effects s @
            serializer_calls (SerializersTable s) (GetTypeHandle obj) (Object ?item) ?stream False @
            (if AsNetworkObject ?item then [OnNetworkDeserialize (Object ?item)] else [])\<rparr>)"
  proof (cases "ResolveSerializer (SerializersTable s) (GetTypeHandle obj)")
    case None
    with h c1 c2 c3 lt inv show ?thesis
      by (simp add: OnNetworkMessageObjectReplicate_def r' sender_is_not_owner_def Let_def
          cong: option.case_cong)
  next
    case (Some serializer)
    with h c1 c2 c3 lt inv show ?thesis
      by (simp add: OnNetworkMessageObjectReplicate_def r' sender_is_not_owner_def Let_def
          cong: option.case_cong)
  qed
  then show ?thesis
    unfolding s1 by auto
qed

text \<open>
  C2, as stated, fails: the server holds the record of the crate, owned by client 7, and
  no serializer resolves for the crate's type. A replicate message of client 7 with a
  newer frame is not dropped: the frame is recorded and the hook is called, but nothing
  is deserialized into the object (no serializer function is called).
\<close>

theorem OnNetworkMessageObjectReplicate_counterexample:
  "\<not> Replicate_dropped server_env (example_replicator [example_record 2 18 7 Replicated True])
       (example_replicate 20 18 ''Game.Crate'') (Some client7) \<and>
   map_sum id (\<lambda>s'. (map LastOwnerFrame (Objects s'), effects s'))
     (OnNetworkMessageObjectReplicate server_env (example_replicate 20 18 ''Game.Crate'') [1, 2, 3]
        (Some client7) (example_replicator [example_record 2 18 7 Replicated True])) =
     Inr ([20], [OnNetworkDeserialize 2])"
proof -
  have res: "ResolveObject_parent server_env (example_replicator [example_record 2 18 7 Replicated True])
      18 0 ''Game.Crate'' = Inr (Some 0, example_replicator [example_record 2 18 7 Replicated True])"
    by (simp add: ResolveObject_parent_def ResolveObject_def example_defs)
  show ?thesis
    using res
    by (simp add: Replicate_dropped_def OnNetworkMessageObjectReplicate_def sender_is_not_owner_def
        example_replicate_def Let_def example_defs)
qed

text \<open>
  C2, amended. An inbound replicate message \<open>m\<close> whose resolution (with parent and type
  reconciliation) returns. When it is dropped (see \<open>Replicate_dropped\<close>) no record changes
  and nothing is called. Otherwise it resolves to a record \<open>e\<close> with a live object; the
  frame recorded before was strictly less than \<open>m\<close>'s and afterwards it is \<open>m\<close>'s; no other
  record changes. When a serializer resolves for the object's type, its deserializing
  function is called on the object with the first \<open>DataSize\<close> bytes of the payload; when
  none resolves, nothing is deserialized and the record is flagged. In both cases the
  post-deserialize hook of the object (when it has one) is called last.
\<close>

theorem OnNetworkMessageObjectReplicate_amended:
  assumes "ResolveObject_parent env s (ReplicateObjectId m) (ReplicateParentId m)
             (ReplicateTypeName m) = Inr (r, s1)"
  shows
    "\<exists>s'. OnNetworkMessageObjectReplicate env m payload client s = Inr s' \<and>
       (Replicate_dropped env s m client \<longrightarrow> Objects s' = Objects s \<and> effects s' = effects s) \<and>
       (\<not> Replicate_dropped env s m client \<longrightarrow>
          (\<exists>e obj.
             r = Some e \<and> e < length (Objects s) \<and> heap env (Object (Objects s ! e)) = Some obj \<and>
             LastOwnerFrame (Objects s ! e) < OwnerFrame m \<and>
             LastOwnerFrame (Objects s' ! e) = OwnerFrame m \<and>
             OwnerFrame m \<le> LastOwnerFrame (Objects s' ! e) \<and>
             length (Objects s') = length (Objects s) \<and>
             (\<forall>j. j \<noteq> e \<longrightarrow> Objects s' ! j = Objects s ! j) \<and>
             (\<forall>serializer.
                ResolveSerializer (SerializersTable s) (GetTypeHandle obj) = Some serializer \<longrightarrow>
                effects s' = effects s @
                  [Invoke (snd (Methods serializer)) (Object (Objects s ! e)) (snd (Tags serializer))
                     (take (unat (DataSize m)) payload)] @
                  (if AsNetworkObject (Objects s ! e)
                   then [OnNetworkDeserialize (Object (Objects s ! e))] else [])) \<and>
             (ResolveSerializer (SerializersTable s) (GetTypeHandle obj) = None \<longrightarrow>
                InvalidTypeWarn (Objects s' ! e) \<and>
                effects s' = effects s @
                  (if AsNetworkObject (Objects s ! e)
                   then [OnNetworkDeserialize (Object (Objects s ! e))] else []))))"
proof (cases "Replicate_dropped env s m client")
  case True
  have "s1 = s\<lparr>IdsRemappingTable := IdsRemappingTable s1\<rparr>"
    by (rule ResolveObject_parent_state[OF assms])
  then have "Objects s1 = Objects s \<and> effects s1 = effects s"
    by (metis Replicator.select_convs(1,11) Replicator.surjective Replicator.update_convs(4))
  with True Replicate_dropped_result[OF assms True, of payload] show ?thesis
    by simp
next
  case False
  from False assms obtain e where e: "r = Some e"
    by (cases r) (simp_all add: Replicate_dropped_def)
  from False assms e obtain obj where h: "heap env (Object (Objects s ! e)) = Some obj"
    and c1: "\<not> sender_is_not_owner client (Objects s ! e)"
    and c2: "Role (Objects s ! e) \<noteq> OwnedAuthoritative"
    and c3: "\<not> OwnerFrame m \<le> LastOwnerFrame (Objects s ! e)"
    by (auto simp: Replicate_dropped_def)
  have lt: "e < length (Objects s)"
    using ResolveObject_parent_bound assms e by blast
  from Replicate_accepted[OF assms[unfolded e] h c1 c2 c3, of payload]
  obtain table s' where res: "OnNetworkMessageObjectReplicate env m payload client s = Inr s'"
    and s': "s' =
       s1\<lparr>Objects := (Objects s)
            [e := (Objects s ! e)
               \<lparr>LastOwnerFrame := OwnerFrame m,
                InvalidTypeWarn := (ResolveSerializer (SerializersTable s) (GetTypeHandle obj) = None \<or>
                                    InvalidTypeWarn (Objects s ! e))\<rparr>],
          CachedReadStream := True,
          SerializersTable := table,
          effects := effects s @
            serializer_calls (SerializersTable s) (GetTypeHandle obj) (Object (Objects s ! e))
              (take (unat (DataSize m)) payload) False @
            (if AsNetworkObject (Objects s ! e) then [OnNetworkDeserialize (Object (Objects s ! e))]
             else [])\<rparr>"
    by auto
  have objs: "Objects s' = (Objects s)
            [e := (Objects s ! e)
               \<lparr>LastOwnerFrame := OwnerFrame m,
                InvalidTypeWarn := (ResolveSerializer (SerializersTable s) (GetTypeHandle obj) = None \<or>
                                    InvalidTypeWarn (Objects s ! e))\<rparr>]"
    and eff: "effects s' = effects s @
            serializer_calls (SerializersTable s) (GetTypeHandle obj) (Object (Objects s ! e))
              (take (unat (DataSize m)) payload) False @
            (if AsNetworkObject (Objects s ! e) then [OnNetworkDeserialize (Object (Objects s ! e))]
             else [])"
    unfolding s' by simp_all
  have f1: "LastOwnerFrame (Objects s ! e) < OwnerFrame m"
    using c3 by simp
  have f2: "LastOwnerFrame (Objects s' ! e) = OwnerFrame m"
    using lt by (simp add: objs)
  have f3: "length (Objects s') = length (Objects s)"
    by (simp add: objs)
  have f4: "\<forall>j. j \<noteq> e \<longrightarrow> Objects s' ! j = Objects s ! j"
    by (simp add: objs)
  have f5: "\<forall>serializer.
      ResolveSerializer (SerializersTable s) (GetTypeHandle obj) = Some serializer \<longrightarrow>
      effects s' = effects s @
        [Invoke (snd (Methods serializer)) (Object (Objects s ! e)) (snd (Tags serializer))
           (take (unat (DataSize m)) payload)] @
        (if AsNetworkObject (Objects s ! e)
         then [OnNetworkDeserialize (Object (Objects s ! e))] else [])"
    by (simp add: eff serializer_calls_def)
  have f6: "ResolveSerializer (SerializersTable s) (GetTypeHandle obj) = None \<longrightarrow>
      InvalidTypeWarn (Objects s' ! e) \<and>
      effects s' = effects s @
        (if AsNetworkObject (Objects s ! e)
         then [OnNetworkDeserialize (Object (Objects s ! e))] else [])"
    using lt by (simp add: eff objs serializer_calls_def)
  have f2': "OwnerFrame m \<le> LastOwnerFrame (Objects s' ! e)"
    by (simp add: f2)
  have acc: "\<exists>e obj.
             r = Some e \<and> e < length (Objects s) \<and> heap env (Object (Objects s ! e)) = Some obj \<and>
             LastOwnerFrame (Objects s ! e) < OwnerFrame m \<and>
             LastOwnerFrame (Objects s' ! e) = OwnerFrame m \<and>
             OwnerFrame m \<le> LastOwnerFrame (Objects s' ! e) \<and>
             length (Objects s') = length (Objects s) \<and>
             (\<forall>j. j \<noteq> e \<longrightarrow> Objects s' ! j = Objects s ! j) \<and>
             (\<forall>serializer.
                ResolveSerializer (SerializersTable s) (GetTypeHandle obj) = Some serializer \<longrightarrow>
                effects s' = effects s @
                  [Invoke (snd (Methods serializer)) (Object (Objects s ! e)) (snd (Tags serializer))
                     (take (unat (DataSize m)) payload)] @
                  (if AsNetworkObject (Objects s ! e)
                   then [OnNetworkDeserialize (Object (Objects s ! e))] else [])) \<and>
             (ResolveSerializer (SerializersTable s) (GetTypeHandle obj) = None \<longrightarrow>
                InvalidTypeWarn (Objects s' ! e) \<and>
                effects s' = effects s @
                  (if AsNetworkObject (Objects s ! e)
                   then [OnNetworkDeserialize (Object (Objects s ! e))] else []))"
    by (intro exI[of _ e] exI[of _ obj] conjI e lt h f1 f2 f2' f3 f4 f5 f6)
  show ?thesis
    apply (intro exI[of _ s'] conjI impI)
       apply (rule res)
      apply (simp add: False)
     apply (simp add: False)
    apply (rule acc)
    done
qed

text \<open>
  C10. A replicate message that is not dropped, for an object whose type resolves to no
  serializer: \<open>InvokeSerializer\<close> reports failure, yet the record's frame is set to the
  message's frame, the record is flagged for the missing serializer, no serializer is
  called, and the post-deserialize hook of the object (when it has one) is called.
\<close>

theorem Replicate_without_serializer:
  assumes "ResolveObject_parent env s (ReplicateObjectId m) (ReplicateParentId m)
             (ReplicateTypeName m) = Inr (Some e, s1)"
    and "heap env (Object (Objects s ! e)) = Some obj"
    and "\<not> Replicate_dropped env s m client"
    and "ResolveSerializer (SerializersTable s) (GetTypeHandle obj) = None"
  shows "\<exists>s'. OnNetworkMessageObjectReplicate env m payload client s = Inr s' \<and>
         fst (InvokeSerializer env (Some (GetTypeHandle obj)) (Some (Object (Objects s ! e)))
                (Some (take (unat (DataSize m)) payload)) False s) \<and>
         LastOwnerFrame (Objects s' ! e) = OwnerFrame m \<and>
         InvalidTypeWarn (Objects s' ! e) \<and>
         effects s' = effects s @
           (if AsNetworkObject (Objects s ! e) then [OnNetworkDeserialize (Object (Objects s ! e))]
            else [])"
proof -
  from assms(1,3) have c1: "\<not> sender_is_not_owner client (Objects s ! e)"
    and c2: "Role (Objects s ! e) \<noteq> OwnedAuthoritative"
    and c3: "\<not> OwnerFrame m \<le> LastOwnerFrame (Objects s ! e)"
    by (auto simp: Replicate_dropped_def)
  have lt: "e < length (Objects s)"
    by (rule ResolveObject_parent_bound[OF assms(1)])
  from Replicate_accepted[OF assms(1,2) c1 c2 c3, of payload]
  obtain table s' where res: "OnNetworkMessageObjectReplicate env m payload client s = Inr s'"
    and s': "s' =
       s1\<lparr>Objects := (Objects s)
            [e := (Objects s ! e)
               \<lparr>LastOwnerFrame := OwnerFrame m,
                InvalidTypeWarn := (ResolveSerializer (SerializersTable s) (GetTypeHandle obj) = None \<or>
                                    InvalidTypeWarn (Objects s ! e))\<rparr>],
          CachedReadStream := True,
          SerializersTable := table,
          effects := effects s @
            serializer_calls (SerializersTable s) (GetTypeHandle obj) (Object (Objects s ! e))
              (take (unat (DataSize m)) payload) False @
            (if AsNetworkObject (Objects s ! e) then [OnNetworkDeserialize (Object (Objects s ! e))]
             else [])\<rparr>"
    by auto
  have g1: "fst (InvokeSerializer env (Some (GetTypeHandle obj)) (Some (Object (Objects s ! e)))
                (Some (take (unat (DataSize m)) payload)) False s)"
    by (simp add: InvokeSerializer_missing[OF assms(4)])
  have g2: "LastOwnerFrame (Objects s' ! e) = OwnerFrame m" "InvalidTypeWarn (Objects s' ! e)"
    unfolding s' using lt assms(4) by simp_all
  have g3: "effects s' = effects s @
           (if AsNetworkObject (Objects s ! e) then [OnNetworkDeserialize (Object (Objects s ! e))]
            else [])"
    unfolding s' using assms(4) by (simp add: serializer_calls_def)
  show ?thesis
    using res g1 g2 g3 by blast
qed

text \<open>
  C7. An inbound role message that resolves to a record with a live object. When the
  sender is not the recorded owner nothing changes. Otherwise the record's owner becomes
  the message's; when that is the local peer the role becomes \<open>OwnedAuthoritative\<close> and
  the last owner frame 0, else a role \<open>OwnedAuthoritative\<close> becomes \<open>Replicated\<close> (and
  the last owner frame is 1); no other record changes; the server sends the role message
  on to every connected client except the sender, a client sends nothing.
\<close>

theorem OnNetworkMessageObjectRole_spec:
  assumes "ResolveObject s (RoleObjectId m) = Some e"
    and "heap env (Object (Objects s ! e)) = Some obj"
    and "s' = OnNetworkMessageObjectRole env m client s"
  shows
    "(sender_is_not_owner client (Objects s ! e) \<longrightarrow> s' = s) \<and>
     (\<not> sender_is_not_owner client (Objects s ! e) \<longrightarrow>
        OwnerClientId (Objects s' ! e) = RoleOwnerClientId m \<and>
        (RoleOwnerClientId m = LocalClientId env \<longrightarrow>
           Role (Objects s' ! e) = OwnedAuthoritative \<and> LastOwnerFrame (Objects s' ! e) = 0) \<and>
        (RoleOwnerClientId m \<noteq> LocalClientId env \<longrightarrow>
           Role (Objects s' ! e) =
             (if Role (Objects s ! e) = OwnedAuthoritative then Replicated else Role (Objects s ! e)) \<and>
           LastOwnerFrame (Objects s' ! e) = 1) \<and>
        length (Objects s') = length (Objects s) \<and>
        (\<forall>j. j \<noteq> e \<longrightarrow> Objects s' ! j = Objects s ! j) \<and>
        effects s' = effects s @
          (if IsClient env then []
           else [EndSendMessage ReliableOrdered
                   (MsgRole \<lparr>RoleObjectId = ObjectId (Objects s ! e),
                              RoleOwnerClientId = RoleOwnerClientId m\<rparr>)
                   (Some (map Connection
                            (filter (\<lambda>c. ClientState c = Connected \<and> Some c \<noteq> client)
                               (Clients env))))]))"
proof -
  have lt: "e < length (Objects s)"
    by (rule ResolveObject_bound[OF assms(1)])
  show ?thesis
  proof (cases "sender_is_not_owner client (Objects s ! e)")
    case True
    with assms show ?thesis
      by (simp add: OnNetworkMessageObjectRole_def sender_is_not_owner_def Let_def)
  next
    case False
    with assms lt show ?thesis
      by (simp add: OnNetworkMessageObjectRole_def sender_is_not_owner_def Let_def
          SendObjectRoleMessage_def BuildCachedTargets_excluded_def)
  qed
qed

theorem OnNetworkMessageObjectReplicate_amended_witness:
  "ResolveObject_parent server_env (example_replicator [example_record 1 17 7 Replicated True])
     17 0 ''Game.Player'' =
     Inr (Some 0, example_replicator [example_record 1 17 7 Replicated True]) \<and>
   Replicate_dropped server_env (example_replicator [example_record 1 17 7 Replicated True])
     (example_replicate 20 17 ''Game.Player'') (Some client8) \<and>
   map_sum id (\<lambda>s'. (Objects s', effects s'))
     (OnNetworkMessageObjectReplicate server_env (example_replicate 20 17 ''Game.Player'') [1, 2, 3]
        (Some client8) (example_replicator [example_record 1 17 7 Replicated True])) =
     Inr ([example_record 1 17 7 Replicated True], []) \<and>
   \<not> Replicate_dropped server_env (example_replicator [example_record 1 17 7 Replicated True])
     (example_replicate 20 17 ''Game.Player'') (Some client7) \<and>
   map_sum id (\<lambda>s'. (LastOwnerFrame (Objects s' ! 0), effects s'))
     (OnNetworkMessageObjectReplicate server_env (example_replicate 20 17 ''Game.Player'') [1, 2, 3]
        (Some client7) (example_replicator [example_record 1 17 7 Replicated True])) =
     Inr (20, [Invoke INetworkSerializable_Deserialize 1 16 [1, 2], OnNetworkDeserialize 1])"
proof -
  let ?s = "example_replicator [example_record 1 17 7 Replicated True]"
  let ?m = "example_replicate 20 17 ''Game.Player''"
  have res0: "ResolveObject_parent server_env ?s 17 0 ''Game.Player'' = Inr (Some 0, ?s)"
    by (simp add: ResolveObject_parent_def ResolveObject_def example_defs)
  then have res: "ResolveObject_parent server_env ?s (ReplicateObjectId ?m) (ReplicateParentId ?m)
      (ReplicateTypeName ?m) = Inr (Some 0, ?s)"
    by (simp add: example_replicate_def)
  have objs: "Objects ?s = [example_record 1 17 7 Replicated True]" and eff: "effects ?s = []"
    and tab: "SerializersTable ?s = (\<lambda>t. None)"
    by (simp_all add: example_defs)
  have d8: "Replicate_dropped server_env ?s ?m (Some client8)"
    using res objs
    by (simp add: Replicate_dropped_def sender_is_not_owner_def example_record_def client8_def)
  have d7: "\<not> Replicate_dropped server_env ?s ?m (Some client7)"
    using res objs
    by (simp add: Replicate_dropped_def sender_is_not_owner_def example_record_def client7_def
        example_replicate_def server_env_def example_heap_def)
  from OnNetworkMessageObjectReplicate_amended [OF res, of "[1, 2, 3]" "Some client8"] d8
  obtain s8 where s8: "OnNetworkMessageObjectReplicate server_env ?m [1, 2, 3] (Some client8) ?s = Inr s8"
    "Objects s8 = Objects ?s" "effects s8 = effects ?s"
    by blast
  have a: "map_sum id (\<lambda>s'. (Objects s', effects s'))
      (OnNetworkMessageObjectReplicate server_env ?m [1, 2, 3] (Some client8) ?s) =
      Inr ([example_record 1 17 7 Replicated True], [])"
    unfolding s8(1) using s8(2,3) objs eff by simp
  from OnNetworkMessageObjectReplicate_amended [OF res, of "[1, 2, 3]" "Some client7"] d7
  obtain s7 e obj where
    s7: "OnNetworkMessageObjectReplicate server_env ?m [1, 2, 3] (Some client7) ?s = Inr s7"
    and e: "Some 0 = Some e"
    and h: "heap server_env (Object (Objects ?s ! e)) = Some obj"
    and f: "LastOwnerFrame (Objects s7 ! e) = OwnerFrame ?m"
    and c: "\<forall>serializer.
        ResolveSerializer (SerializersTable ?s) (GetTypeHandle obj) = Some serializer \<longrightarrow>
        effects s7 = effects ?s @
          [Invoke (snd (Methods serializer)) (Object (Objects ?s ! e)) (snd (Tags serializer))
             (take (unat (DataSize ?m)) [1, 2, 3])] @
          (if AsNetworkObject (Objects ?s ! e)
           then [OnNetworkDeserialize (Object (Objects ?s ! e))] else [])"
    by blast
  have e0: "e = 0" using e by simp
  have obj: "obj = player"
    using h objs unfolding e0 by (simp add: example_record_def server_env_def example_heap_def)
  have rs: "ResolveSerializer (SerializersTable ?s) (GetTypeHandle player) =
      Some \<lparr>Methods = (INetworkSerializable_Serialize, INetworkSerializable_Deserialize),
             Tags = (16, 16)\<rparr>"
    by (simp add: example_defs)
  have b1: "LastOwnerFrame (Objects s7 ! 0) = 20"
    using f unfolding e0 by (simp add: example_replicate_def)
  have b2: "effects s7 = [Invoke INetworkSerializable_Deserialize 1 16 [1, 2], OnNetworkDeserialize 1]"
    using c[rule_format, unfolded e0 obj, OF rs] objs eff
    by (simp add: example_replicate_def example_record_def)
  have b: "map_sum id (\<lambda>s'. (LastOwnerFrame (Objects s' ! 0), effects s'))
      (OnNetworkMessageObjectReplicate server_env ?m [1, 2, 3] (Some client7) ?s) =
      Inr (20, [Invoke INetworkSerializable_Deserialize 1 16 [1, 2], OnNetworkDeserialize 1])"
    unfolding s7 using b1 b2 by simp
  show ?thesis
    using res0 d8 a d7 b by blast
qed

theorem Replicate_without_serializer_witness:
  "ResolveObject_parent server_env (example_replicator [example_record 2 18 7 Replicated True])
     18 0 ''Game.Crate'' =
     Inr (Some 0, example_replicator [example_record 2 18 7 Replicated True]) \<and>
   heap server_env 2 = Some crate \<and>
   \<not> Replicate_dropped server_env (example_replicator [example_record 2 18 7 Replicated True])
       (example_replicate 20 18 ''Game.Crate'') (Some client7) \<and>
   ResolveSerializer (\<lambda>t. None) Crate_type = None \<and>
   map_sum id (\<lambda>s'. (LastOwnerFrame (Objects s' ! 0), effects s'))
     (OnNetworkMessageObjectReplicate server_env (example_replicate 20 18 ''Game.Crate'') [1, 2, 3]
        (Some client7) (example_replicator [example_record 2 18 7 Replicated True])) =
     Inr (20, [OnNetworkDeserialize 2])"
proof -
  let ?s = "example_replicator [example_record 2 18 7 Replicated True]"
  let ?m = "example_replicate 20 18 ''Game.Crate''"
  have res0: "ResolveObject_parent server_env ?s 18 0 ''Game.Crate'' = Inr (Some 0, ?s)"
    by (simp add: ResolveObject_parent_def ResolveObject_def example_defs)
  then have res: "ResolveObject_parent server_env ?s (ReplicateObjectId ?m) (ReplicateParentId ?m)
      (ReplicateTypeName ?m) = Inr (Some 0, ?s)"
    by (simp add: example_replicate_def)
  have objs: "Objects ?s = [example_record 2 18 7 Replicated True]" and eff: "effects ?s = []"
    by (simp_all add: example_defs)
  have h2: "heap server_env 2 = Some crate"
    by (simp add: example_defs)
  then have h: "heap server_env (Object (Objects ?s ! 0)) = Some crate"
    using objs by (simp add: example_record_def)
  have d7: "\<not> Replicate_dropped server_env ?s ?m (Some client7)"
    using res h objs
    by (simp add: Replicate_dropped_def sender_is_not_owner_def example_record_def client7_def
        example_replicate_def)
  have rs0: "ResolveSerializer (\<lambda>t. None) Crate_type = None"
    by (simp add: example_defs)
  then have rs: "ResolveSerializer (SerializersTable ?s) (GetTypeHandle crate) = None"
    by (simp add: example_defs)
  from Replicate_without_serializer [OF res h d7 rs, of "[1, 2, 3]"]
  obtain s' where s': "OnNetworkMessageObjectReplicate server_env ?m [1, 2, 3] (Some client7) ?s = Inr s'"
    "LastOwnerFrame (Objects s' ! 0) = OwnerFrame ?m"
    "effects s' = effects ?s @
       (if AsNetworkObject (Objects ?s ! 0) then [OnNetworkDeserialize (Object (Objects ?s ! 0))]
        else [])"
    by blast
  have "map_sum id (\<lambda>s'. (LastOwnerFrame (Objects s' ! 0), effects s'))
      (OnNetworkMessageObjectReplicate server_env ?m [1, 2, 3] (Some client7) ?s) =
      Inr (20, [OnNetworkDeserialize 2])"
    unfolding s'(1) using s'(2,3) eff objs
    by (simp add: example_replicate_def example_record_def)
  with res0 h2 d7 rs0 show ?thesis by simp
qed

theorem OnNetworkMessageObjectRole_spec_witness:
  "ResolveObject (example_replicator [example_record 1 17 7 Replicated True]) 17 = Some 0 \<and>
   heap server_env 1 = Some player \<and>
   sender_is_not_owner (Some client8) (example_record 1 17 7 Replicated True) \<and>
   OnNetworkMessageObjectRole server_env \<lparr>RoleObjectId = 17, RoleOwnerClientId = 0\<rparr> (Some client8)
     (example_replicator [example_record 1 17 7 Replicated True]) =
     example_replicator [example_record 1 17 7 Replicated True] \<and>
   \<not> sender_is_not_owner (Some client7) (example_record 1 17 7 Replicated True) \<and>
   OwnerClientId (Objects (OnNetworkMessageObjectRole server_env
       \<lparr>RoleObjectId = 17, RoleOwnerClientId = 0\<rparr> (Some client7)
       (example_replicator [example_record 1 17 7 Replicated True])) ! 0) = 0 \<and>
   Role (Objects (OnNetworkMessageObjectRole server_env
       \<lparr>RoleObjectId = 17, RoleOwnerClientId = 0\<rparr> (Some client7)
       (example_replicator [example_record 1 17 7 Replicated True])) ! 0) = OwnedAuthoritative \<and>
   LastOwnerFrame (Objects (OnNetworkMessageObjectRole server_env
       \<lparr>RoleObjectId = 17, RoleOwnerClientId = 0\<rparr> (Some client7)
       (example_replicator [example_record 1 17 7 Replicated True])) ! 0) = 0 \<and>
   effects (OnNetworkMessageObjectRole server_env
       \<lparr>RoleObjectId = 17, RoleOwnerClientId = 0\<rparr> (Some client7)
       (example_replicator [example_record 1 17 7 Replicated True])) =
     [EndSendMessage ReliableOrdered (MsgRole \<lparr>RoleObjectId = 17, RoleOwnerClientId = 0\<rparr>)
        (Some [108])]"
proof -
  let ?s = "example_replicator [example_record 1 17 7 Replicated True]"
  let ?m = "\<lparr>RoleObjectId = 17, RoleOwnerClientId = 0\<rparr> :: NetworkMessageObjectRole"
  have res0: "ResolveObject ?s 17 = Some 0"
    by (simp add: ResolveObject_def example_defs)
  then have res: "ResolveObject ?s (RoleObjectId ?m) = Some 0"
    by simp
  have objs: "Objects ?s = [example_record 1 17 7 Replicated True]" and eff: "effects ?s = []"
    by (simp_all add: example_defs)
  have h1: "heap server_env 1 = Some player"
    by (simp add: example_defs)
  then have h: "heap server_env (Object (Objects ?s ! 0)) = Some player"
    using objs by (simp add: example_record_def)
  have n8: "sender_is_not_owner (Some client8) (example_record 1 17 7 Replicated True)"
    and n7: "\<not> sender_is_not_owner (Some client7) (example_record 1 17 7 Replicated True)"
    by (simp_all add: sender_is_not_owner_def example_defs)
  have a: "OnNetworkMessageObjectRole server_env ?m (Some client8) ?s = ?s"
    using OnNetworkMessageObjectRole_spec [OF res h refl, of "Some client8"] n8 objs
    by simp
  have b: "OwnerClientId (Objects (OnNetworkMessageObjectRole server_env ?m (Some client7) ?s) ! 0) = 0 \<and>
      Role (Objects (OnNetworkMessageObjectRole server_env ?m (Some client7) ?s) ! 0) = OwnedAuthoritative \<and>
      LastOwnerFrame (Objects (OnNetworkMessageObjectRole server_env ?m (Some client7) ?s) ! 0) = 0 \<and>
      effects (OnNetworkMessageObjectRole server_env ?m (Some client7) ?s) =
        [EndSendMessage ReliableOrdered (MsgRole \<lparr>RoleObjectId = 17, RoleOwnerClientId = 0\<rparr>)
           (Some [108])]"
    using OnNetworkMessageObjectRole_spec [OF res h refl, of "Some client7"] n7 objs eff
    by (simp add: example_defs)
  show ?thesis
    using res0 h1 n8 a n7 b by simp
qed

end
